theory Spec2Isabelle
  imports Complex_Main "HOL-Library.Word" "HOL-Library.Signed_Division"
begin

section \<open>Data model of the simulation (src/main.c)\<close>

text \<open>
  The C program keeps every coordinate, timer and speed in a \<open>float\<close>. The embedding
  uses \<open>real\<close> for them: the claims are about the game logic (which branch is taken,
  which field is written), not about rounding. \<open>int\<close> fields (health, bulletCount,
  cell indices) are \<open>int\<close>; none of them can leave the 32-bit range in the code paths
  modelled here (bulletCount is only incremented below MAX_BULLETS, cell indices are a
  truncated coordinate plus or minus one). Colour channels are \<open>unsigned char\<close>.
  Texture handles are presentation data and are left out of the records.

  Several structs share field names (position, size, speed, \<dots>); the record fields
  carry the struct's initial as a suffix: \<open>position_P\<close> (Player), \<open>position_E\<close>
  (Enemy), \<open>position_B\<close> (Bullet).
\<close>

record Vector3 =
  vec_x :: real
  vec_y :: real
  vec_z :: real

record BoundingBox =
  box_min :: Vector3
  box_max :: Vector3

record Color =
  col_r :: "8 word"
  col_g :: "8 word"
  col_b :: "8 word"
  col_a :: "8 word"

record Player =
  position_P :: Vector3
  size_P :: Vector3
  speed_P :: real
  direction_P :: int
  velocity :: Vector3
  isGrounded :: bool
  jumpForce :: real
  gravity :: real
  health_P :: int
  isHit_P :: bool
  hitTimer_P :: real

record Enemy =
  position_E :: Vector3
  size_E :: Vector3
  speed_E :: real
  shootTimer :: real
  shootCooldown :: real
  active_E :: bool
  health_E :: int
  isHit_E :: bool
  hitTimer_E :: real

record Bullet =
  position_B :: Vector3
  direction_B :: Vector3
  speed_B :: real
  radius :: real
  color_B :: Color
  active_B :: bool
  fromPlayer :: bool

text \<open>
  The cubicmap texture: its dimensions and the pixel that
  \<open>GetImageColor(LoadImageFromTexture(cubicmap), x, z)\<close> reads.
\<close>

record Texture2D =
  tex_width :: int
  tex_height :: int
  tex_pixel :: "int \<Rightarrow> int \<Rightarrow> Color"

datatype error = OutOfBounds

definition MAX_ENEMIES :: int where
  "MAX_ENEMIES = 100"

definition MAX_BULLETS :: int where
  "MAX_BULLETS = 500"

definition ENEMY_SHOOT_COOLDOWN :: real where
  "ENEMY_SHOOT_COOLDOWN = 2"

definition BULLET_SPEED :: real where
  "BULLET_SPEED = 3 / 10"

definition BULLET_RADIUS :: real where
  "BULLET_RADIUS = 15 / 100"

definition YELLOW :: Color where
  "YELLOW = \<lparr>col_r = 253, col_g = 249, col_b = 0, col_a = 255\<rparr>"

definition RED :: Color where
  "RED = \<lparr>col_r = 230, col_g = 41, col_b = 55, col_a = 255\<rparr>"


section \<open>Library primitives (raylib, raymath, libm)\<close>

text \<open>
  The program calls these functions of raylib and raymath; their code is not in the
  repository. Each is written out from the library's documented behaviour, which the
  specification restates where it relies on it.
\<close>

definition Vector3Add :: "Vector3 \<Rightarrow> Vector3 \<Rightarrow> Vector3" where
  "Vector3Add v1 v2 =
     \<lparr>vec_x = vec_x v1 + vec_x v2, vec_y = vec_y v1 + vec_y v2, vec_z = vec_z v1 + vec_z v2\<rparr>"

definition Vector3Subtract :: "Vector3 \<Rightarrow> Vector3 \<Rightarrow> Vector3" where
  "Vector3Subtract v1 v2 =
     \<lparr>vec_x = vec_x v1 - vec_x v2, vec_y = vec_y v1 - vec_y v2, vec_z = vec_z v1 - vec_z v2\<rparr>"

definition Vector3Scale :: "Vector3 \<Rightarrow> real \<Rightarrow> Vector3" where
  "Vector3Scale v s = \<lparr>vec_x = vec_x v * s, vec_y = vec_y v * s, vec_z = vec_z v * s\<rparr>"

definition Vector3Length :: "Vector3 \<Rightarrow> real" where
  "Vector3Length v = sqrt (vec_x v * vec_x v + vec_y v * vec_y v + vec_z v * vec_z v)"

text \<open>
  Modelled from the spec: raymath's \<open>Vector3Normalize\<close> is not under src/. Section 7
  of the specification: a zero-length vector is guarded, the result is the zero vector
  and no division takes place; any other vector is scaled by the inverse of its length.
\<close>

definition Vector3Normalize :: "Vector3 \<Rightarrow> Vector3" where
  "Vector3Normalize v =
     (let len = Vector3Length v
      in if len \<noteq> 0 then Vector3Scale v (1 / len) else v)"

text \<open>
  Modelled from the spec: raylib's \<open>CheckCollisionBoxes\<close> is not under src/. Section
  4.2 of the specification (BoxIntersects): standard overlap of two axis-aligned boxes,
  all three axes overlap, touching faces included.
\<close>

definition CheckCollisionBoxes :: "BoundingBox \<Rightarrow> BoundingBox \<Rightarrow> bool" where
  "CheckCollisionBoxes box1 box2 =
     (if vec_x (box_max box1) \<ge> vec_x (box_min box2) \<and> vec_x (box_min box1) \<le> vec_x (box_max box2)
      then \<not> (vec_y (box_max box1) < vec_y (box_min box2) \<or> vec_y (box_min box1) > vec_y (box_max box2))
         \<and> \<not> (vec_z (box_max box1) < vec_z (box_min box2) \<or> vec_z (box_min box1) > vec_z (box_max box2))
      else False)"

text \<open>
  The C cast \<open>(int)f\<close> of a float: truncation toward zero.
\<close>

definition int_of_float :: "real \<Rightarrow> int" where
  "int_of_float f = (if f \<ge> 0 then \<lfloor>f\<rfloor> else \<lceil>f\<rceil>)"

text \<open>
  Modelled from the spec: raylib's \<open>GetRandomValue(min, max)\<close> is not under src/. It
  returns an integer between min and max, both included; \<open>raw\<close> is the generator's
  draw, which the program never sees.
\<close>

definition GetRandomValue :: "int \<Rightarrow> int \<Rightarrow> int \<Rightarrow> int" where
  "GetRandomValue lo hi raw = (if hi < lo then hi else lo) + raw mod (\<bar>hi - lo\<bar> + 1)"


section \<open>Bounding boxes and the sphere-box test\<close>

definition GetPlayerBoundingBox :: "Player \<Rightarrow> BoundingBox" where
  "GetPlayerBoundingBox player =
     \<lparr>box_min = \<lparr>vec_x = vec_x (position_P player) - vec_x (size_P player) / 2,
                 vec_y = vec_y (position_P player),
                 vec_z = vec_z (position_P player) - vec_z (size_P player) / 2\<rparr>,
      box_max = \<lparr>vec_x = vec_x (position_P player) + vec_x (size_P player) / 2,
                 vec_y = vec_y (position_P player) + vec_y (size_P player),
                 vec_z = vec_z (position_P player) + vec_z (size_P player) / 2\<rparr>\<rparr>"

definition GetEnemyBoundingBox :: "Enemy \<Rightarrow> BoundingBox" where
  "GetEnemyBoundingBox enemy =
     \<lparr>box_min = \<lparr>vec_x = vec_x (position_E enemy) - vec_x (size_E enemy) / 2,
                 vec_y = vec_y (position_E enemy),
                 vec_z = vec_z (position_E enemy) - vec_z (size_E enemy) / 2\<rparr>,
      box_max = \<lparr>vec_x = vec_x (position_E enemy) + vec_x (size_E enemy) / 2,
                 vec_y = vec_y (position_E enemy) + vec_y (size_E enemy),
                 vec_z = vec_z (position_E enemy) + vec_z (size_E enemy) / 2\<rparr>\<rparr>"

text \<open>
  \<open>CheckCollisionSphereBox\<close> (lines 758-775): \<open>fmaxf\<close>, \<open>fminf\<close> are \<open>max\<close>,
  \<open>min\<close>; \<open>powf(d, 2.0f)\<close> is the square of \<open>d\<close>.
\<close>

definition CheckCollisionSphereBox :: "Vector3 \<Rightarrow> real \<Rightarrow> BoundingBox \<Rightarrow> bool" where
  "CheckCollisionSphereBox center rad box =
     (let closest = \<lparr>vec_x = max (vec_x (box_min box)) (min (vec_x center) (vec_x (box_max box))),
                      vec_y = max (vec_y (box_min box)) (min (vec_y center) (vec_y (box_max box))),
                      vec_z = max (vec_z (box_min box)) (min (vec_z center) (vec_z (box_max box)))\<rparr>;
          distanceSquared = (vec_x closest - vec_x center)\<^sup>2
                          + (vec_y closest - vec_y center)\<^sup>2
                          + (vec_z closest - vec_z center)\<^sup>2
      in distanceSquared < rad * rad)"

text \<open>
  The specification's wording of the same test (section 4.2), kept apart from the code:
  a coordinate is clamped to the interval of the box on its axis, the clamped point is
  the closest point of the box, and the squared distance to it is compared to the
  squared radius.
\<close>

definition clamp_axis :: "real \<Rightarrow> real \<Rightarrow> real \<Rightarrow> real" where
  "clamp_axis lo hi v = (if v < lo then lo else if hi < v then hi else v)"

definition clamp_to_box :: "Vector3 \<Rightarrow> BoundingBox \<Rightarrow> Vector3" where
  "clamp_to_box c box =
     \<lparr>vec_x = clamp_axis (vec_x (box_min box)) (vec_x (box_max box)) (vec_x c),
      vec_y = clamp_axis (vec_y (box_min box)) (vec_y (box_max box)) (vec_y c),
      vec_z = clamp_axis (vec_z (box_min box)) (vec_z (box_max box)) (vec_z c)\<rparr>"

definition squared_distance :: "Vector3 \<Rightarrow> Vector3 \<Rightarrow> real" where
  "squared_distance p q =
     (vec_x p - vec_x q)\<^sup>2 + (vec_y p - vec_y q)\<^sup>2 + (vec_z p - vec_z q)\<^sup>2"

definition well_formed_box :: "BoundingBox \<Rightarrow> bool" where
  "well_formed_box box \<longleftrightarrow>
     vec_x (box_min box) \<le> vec_x (box_max box) \<and>
     vec_y (box_min box) \<le> vec_y (box_max box) \<and>
     vec_z (box_min box) \<le> vec_z (box_max box)"


section \<open>Map collision queries\<close>

text \<open>
  The three map queries and the landing scan of \<open>UpdatePlayerPhysics\<close> repeat the
  same cell arithmetic inline; it is written once here. \<open>modelBox\<close> stands for
  \<open>GetModelBoundingBox(model)\<close>, the only use the program makes of the map model.
\<close>

definition mapBounds_of :: "BoundingBox \<Rightarrow> Vector3 \<Rightarrow> BoundingBox" where
  "mapBounds_of modelBox mapPosition =
     \<lparr>box_min = Vector3Add (box_min modelBox) mapPosition,
      box_max = Vector3Add (box_max modelBox) mapPosition\<rparr>"

definition cell_outside :: "Texture2D \<Rightarrow> int \<Rightarrow> int \<Rightarrow> bool" where
  "cell_outside cubicmap currentCellX currentCellZ \<longleftrightarrow>
     currentCellX < 0 \<or> currentCellZ < 0 \<or>
     currentCellX \<ge> tex_width cubicmap \<or> currentCellZ \<ge> tex_height cubicmap"

definition cell_is_wall :: "Texture2D \<Rightarrow> int \<Rightarrow> int \<Rightarrow> bool" where
  "cell_is_wall cubicmap currentCellX currentCellZ =
     (let cellColor = tex_pixel cubicmap currentCellX currentCellZ
      in col_r cellColor > 50 \<and> col_g cellColor > 50 \<and> col_b cellColor > 50)"

definition cellBounds_of :: "Vector3 \<Rightarrow> int \<Rightarrow> int \<Rightarrow> BoundingBox" where
  "cellBounds_of mapPosition currentCellX currentCellZ =
     (let cellXOffset = real_of_int currentCellX - 1 / 2;
          cellZOffset = real_of_int currentCellZ - 1 / 2
      in \<lparr>box_min = \<lparr>vec_x = vec_x mapPosition + cellXOffset,
                     vec_y = vec_y mapPosition,
                     vec_z = vec_z mapPosition + cellZOffset\<rparr>,
          box_max = \<lparr>vec_x = vec_x mapPosition + cellXOffset + 1,
                     vec_y = vec_y mapPosition + 1,
                     vec_z = vec_z mapPosition + cellZOffset + 1\<rparr>\<rparr>)"

text \<open>
  The cells of \<open>for z in -1..1: for x in -1..1\<close>, in the order the loops visit them.
\<close>

definition neighbourhood :: "int \<Rightarrow> int \<Rightarrow> (int \<times> int) list" where
  "neighbourhood cellX cellZ =
     concat (map (\<lambda>z. map (\<lambda>x. (cellX + x, cellZ + z)) [-1, 0, 1]) [-1, 0, 1])"

text \<open>
  \<open>CheckCollisionPlayerWithMap\<close> (lines 539-620). The loops run over all nine cells
  without a break and collect two flags. The function writes the player's
  \<open>isGrounded\<close> through its pointer, so the model returns the player with the flag.
\<close>

definition player_cell_step ::
  "Player \<Rightarrow> Vector3 \<Rightarrow> Texture2D \<Rightarrow> bool \<times> bool \<Rightarrow> int \<times> int \<Rightarrow> bool \<times> bool" where
  "player_cell_step player mapPosition cubicmap flags cell =
     (let collision = fst flags; groundContact = snd flags;
          currentCellX = fst cell; currentCellZ = snd cell
      in if cell_outside cubicmap currentCellX currentCellZ then flags
         else if cell_is_wall cubicmap currentCellX currentCellZ then
           (if CheckCollisionBoxes (GetPlayerBoundingBox player)
                 (cellBounds_of mapPosition currentCellX currentCellZ)
            then (let playerBottomY = vec_y (position_P player);
                      cellTopY = vec_y mapPosition + 1
                  in if \<bar>playerBottomY - cellTopY\<bar> < 1 / 10 then (collision, True)
                     else (True, groundContact))
            else flags)
         else flags)"

definition CheckCollisionPlayerWithMap ::
  "Player \<Rightarrow> BoundingBox \<Rightarrow> Vector3 \<Rightarrow> Texture2D \<Rightarrow> bool \<times> Player" where
  "CheckCollisionPlayerWithMap player modelBox mapPosition cubicmap =
     (if \<not> CheckCollisionBoxes (GetPlayerBoundingBox player) (mapBounds_of modelBox mapPosition)
      then (True, player)
      else
        (let cellX = int_of_float (vec_x (position_P player) - vec_x mapPosition);
             cellZ = int_of_float (vec_z (position_P player) - vec_z mapPosition);
             flags = foldl (player_cell_step player mapPosition cubicmap) (False, False)
                       (neighbourhood cellX cellZ);
             collision = fst flags; groundContact = snd flags
         in (collision,
             if groundContact \<or> vec_y (position_P player) \<le> 1 / 2
             then player\<lparr>isGrounded := True\<rparr> else player)))"

text \<open>
  The enemy and bullet queries leave both loops at the first colliding cell: an
  early-exit scan over the same cell order.
\<close>

fun scan_cells :: "(int \<Rightarrow> int \<Rightarrow> bool) \<Rightarrow> (int \<times> int) list \<Rightarrow> bool" where
  "scan_cells hit [] = False"
| "scan_cells hit (cell # cells) =
     (if hit (fst cell) (snd cell) then True else scan_cells hit cells)"

definition CheckCollisionEnemyWithMap ::
  "Enemy \<Rightarrow> BoundingBox \<Rightarrow> Vector3 \<Rightarrow> Texture2D \<Rightarrow> bool" where
  "CheckCollisionEnemyWithMap enemy modelBox mapPosition cubicmap =
     (if \<not> CheckCollisionBoxes (GetEnemyBoundingBox enemy) (mapBounds_of modelBox mapPosition)
      then True
      else
        (let cellX = int_of_float (vec_x (position_E enemy) - vec_x mapPosition);
             cellZ = int_of_float (vec_z (position_E enemy) - vec_z mapPosition)
         in scan_cells
              (\<lambda>currentCellX currentCellZ.
                 \<not> cell_outside cubicmap currentCellX currentCellZ \<and>
                 cell_is_wall cubicmap currentCellX currentCellZ \<and>
                 CheckCollisionBoxes (GetEnemyBoundingBox enemy)
                   (cellBounds_of mapPosition currentCellX currentCellZ))
              (neighbourhood cellX cellZ)))"



text \<open>
  The two conditions the player query tests for a cell, named for the theorems: the
  cell is a wall of the map that the player's box intersects, and the player's base is
  within 0.1 of the top of the cell layer.
\<close>

definition player_overlaps_wall :: "Player \<Rightarrow> Vector3 \<Rightarrow> Texture2D \<Rightarrow> int \<times> int \<Rightarrow> bool" where
  "player_overlaps_wall player mapPosition cubicmap cell \<longleftrightarrow>
     \<not> cell_outside cubicmap (fst cell) (snd cell) \<and>
     cell_is_wall cubicmap (fst cell) (snd cell) \<and>
     CheckCollisionBoxes (GetPlayerBoundingBox player)
       (cellBounds_of mapPosition (fst cell) (snd cell))"

definition near_cell_top :: "Player \<Rightarrow> Vector3 \<Rightarrow> bool" where
  "near_cell_top player mapPosition \<longleftrightarrow>
     \<bar>vec_y (position_P player) - (vec_y mapPosition + 1)\<bar> < 1 / 10"

definition player_cell :: "Player \<Rightarrow> Vector3 \<Rightarrow> int \<times> int" where
  "player_cell player mapPosition =
     (int_of_float (vec_x (position_P player) - vec_x mapPosition),
      int_of_float (vec_z (position_P player) - vec_z mapPosition))"


section \<open>Player: hit timer, horizontal move, jump, vertical physics\<close>

text \<open>
  The player's part of the main loop is inline in \<open>main\<close>; each block is a function
  here, named after what it does. Lines 188-194: the hit timer.
\<close>

definition main_hit_timer :: "real \<Rightarrow> Player \<Rightarrow> Player" where
  "main_hit_timer deltaTime player =
     (if isHit_P player then
        (let p = player\<lparr>hitTimer_P := hitTimer_P player - deltaTime\<rparr>
         in if hitTimer_P p \<le> 0 then p\<lparr>isHit_P := False\<rparr> else p)
      else player)"

text \<open>
  Lines 196-226: the keys held down (\<open>IsKeyDown\<close> of the arrow key or its letter), the
  move on both axes, then one collision query and the restore of the whole position.
\<close>

record Keys =
  key_right :: bool
  key_left :: bool
  key_down :: bool
  key_up :: bool

definition main_apply_keys :: "Keys \<Rightarrow> Player \<Rightarrow> Player" where
  "main_apply_keys keys player =
     (let p1 =
            (if key_right keys then
               player\<lparr>position_P := (position_P player)\<lparr>vec_x := vec_x (position_P player) + speed_P player\<rparr>,
                      direction_P := 1\<rparr>
             else if key_left keys then
               player\<lparr>position_P := (position_P player)\<lparr>vec_x := vec_x (position_P player) - speed_P player\<rparr>,
                      direction_P := 3\<rparr>
             else player)
      in if key_down keys then
           p1\<lparr>position_P := (position_P p1)\<lparr>vec_z := vec_z (position_P p1) + speed_P p1\<rparr>,
              direction_P := 0\<rparr>
         else if key_up keys then
           p1\<lparr>position_P := (position_P p1)\<lparr>vec_z := vec_z (position_P p1) - speed_P p1\<rparr>,
              direction_P := 2\<rparr>
         else p1)"

definition main_move_player ::
  "Keys \<Rightarrow> Player \<Rightarrow> BoundingBox \<Rightarrow> Vector3 \<Rightarrow> Texture2D \<Rightarrow> Player" where
  "main_move_player keys player modelBox mapPosition cubicmap =
     (let previousPosition = position_P player;
          moved = main_apply_keys keys player;
          checked = CheckCollisionPlayerWithMap moved modelBox mapPosition cubicmap
      in if fst checked then (snd checked)\<lparr>position_P := previousPosition\<rparr>
         else snd checked)"











section \<open>Bullets\<close>

text \<open>
  The bullet pool is the C array \<open>Bullet bullets[MAX_BULLETS]\<close>, a list here. A read or
  write through an index outside the list is undefined behaviour in C; the model
  returns \<open>Inl OutOfBounds\<close> there. \<open>bulletCount\<close> is an \<open>int\<close>, and the C
  remainder \<open>%\<close> truncates toward zero (\<open>smod\<close>).

  \<open>ShootBullet\<close> (lines 883-919): the search for an inactive slot.
\<close>

function find_inactive :: "Bullet list \<Rightarrow> nat \<Rightarrow> error + int" where
  "find_inactive bullets i =
     (if int i < MAX_BULLETS then
        (if length bullets \<le> i then Inl OutOfBounds
         else if \<not> active_B (bullets ! i) then Inr (int i)
         else find_inactive bullets (Suc i))
      else Inr (-1))"
  by pat_completeness auto
termination
  by (relation "measure (\<lambda>(bullets, i). nat MAX_BULLETS - i)") (auto simp: MAX_BULLETS_def)

definition new_bullet :: "Vector3 \<Rightarrow> Vector3 \<Rightarrow> bool \<Rightarrow> Bullet" where
  "new_bullet position direction fromPlayer' =
     \<lparr>position_B = position, direction_B = direction,
      speed_B = BULLET_SPEED, radius = BULLET_RADIUS,
      color_B = (if fromPlayer' then YELLOW else RED),
      active_B = True, fromPlayer = fromPlayer'\<rparr>"

definition ShootBullet ::
  "Bullet list \<Rightarrow> int \<Rightarrow> Vector3 \<Rightarrow> Vector3 \<Rightarrow> bool \<Rightarrow> error + (Bullet list \<times> int)" where
  "ShootBullet bullets bulletCount position direction fromPlayer' =
     (if bulletCount \<ge> MAX_BULLETS then Inr (bullets, bulletCount)
      else
        (case find_inactive bullets 0 of
           Inl e \<Rightarrow> Inl e
         | Inr found \<Rightarrow>
             (let bulletIndex = (if found = -1 then bulletCount smod MAX_BULLETS else found);
                  bulletCount' = (if found = -1 then bulletCount else bulletCount + 1)
              in if bulletIndex < 0 \<or> int (length bullets) \<le> bulletIndex then Inl OutOfBounds
                 else Inr (bullets[nat bulletIndex := new_bullet position direction fromPlayer'],
                           bulletCount'))))"

text \<open>
  \<open>UpdateBullets\<close> (lines 922-941): the body of the loop for one bullet, and the loop
  over the indices below \<open>bulletCount\<close>. \<open>deltaTime\<close> is a parameter the body never
  reads.
\<close>

definition advance_bullet :: "Bullet \<Rightarrow> Bullet" where
  "advance_bullet bullet =
     (if active_B bullet then
        (let b = bullet\<lparr>position_B :=
                   \<lparr>vec_x = vec_x (position_B bullet) + vec_x (direction_B bullet) * speed_B bullet,
                    vec_y = vec_y (position_B bullet) + vec_y (direction_B bullet) * speed_B bullet,
                    vec_z = vec_z (position_B bullet) + vec_z (direction_B bullet) * speed_B bullet\<rparr>\<rparr>;
             distance = Vector3Length (position_B b)
         in if distance > 50 then b\<lparr>active_B := False\<rparr> else b)
      else bullet)"

function UpdateBullets_from :: "nat \<Rightarrow> Bullet list \<Rightarrow> int \<Rightarrow> real \<Rightarrow> error + Bullet list" where
  "UpdateBullets_from i bullets bulletCount deltaTime =
     (if int i < bulletCount then
        (if length bullets \<le> i then Inl OutOfBounds
         else UpdateBullets_from (Suc i) (bullets[i := advance_bullet (bullets ! i)])
                bulletCount deltaTime)
      else Inr bullets)"
  by pat_completeness auto
termination
  by (relation "measure (\<lambda>(i, bullets, bulletCount, deltaTime). nat bulletCount - i)") auto

definition UpdateBullets :: "Bullet list \<Rightarrow> int \<Rightarrow> real \<Rightarrow> error + Bullet list" where
  "UpdateBullets bullets bulletCount deltaTime = UpdateBullets_from 0 bullets bulletCount deltaTime"

text \<open>
  Lines 243-269 of \<open>main\<close>: the direction of a player's shot. \<open>targetPoint\<close> is the
  point of the mouse ray on the plane at the player's firing height, which raylib's
  \<open>GetMouseRay\<close> determines.
\<close>

definition main_shoot_direction :: "Vector3 \<Rightarrow> Player \<Rightarrow> Vector3" where
  "main_shoot_direction targetPoint player =
     (let direction = Vector3Normalize (Vector3Subtract targetPoint
                        \<lparr>vec_x = vec_x (position_P player),
                         vec_y = vec_y (position_P player) + 1 / 2,
                         vec_z = vec_z (position_P player)\<rparr>);
          direction = direction\<lparr>vec_y := 0\<rparr>
      in Vector3Normalize direction)"

definition main_player_shoot ::
  "Vector3 \<Rightarrow> Player \<Rightarrow> Bullet list \<Rightarrow> int \<Rightarrow> error + (Bullet list \<times> int)" where
  "main_player_shoot targetPoint player bullets bulletCount =
     ShootBullet bullets bulletCount
       \<lparr>vec_x = vec_x (position_P player),
        vec_y = vec_y (position_P player) + 1 / 2,
        vec_z = vec_z (position_P player)\<rparr>
       (main_shoot_direction targetPoint player) True"


text \<open>
  What the loops over \<open>i < bulletCount\<close> rely on: every active bullet lies below
  \<open>bulletCount\<close>. It holds for the initial pool and count, and \<open>ShootBullet\<close> and
  \<open>UpdateBullets\<close> keep it.
\<close>

definition active_below_count :: "Bullet list \<Rightarrow> int \<Rightarrow> bool" where
  "active_below_count bullets bulletCount \<longleftrightarrow>
     (\<forall>i<length bullets. active_B (bullets ! i) \<longrightarrow> int i < bulletCount)"


section \<open>Enemies\<close>

text \<open>
  \<open>UpdateEnemies\<close> (lines 944-1017), the body of the loop for one active enemy in
  the order of the source: hit timer, direction and distance to the player, the move
  on x and then on z, the shoot timer and the shot. \<open>raw\<close> is the random generator's
  draw behind \<open>GetRandomValue(-50, 50)\<close>.
\<close>

definition enemy_hit_timer :: "real \<Rightarrow> Enemy \<Rightarrow> Enemy" where
  "enemy_hit_timer deltaTime enemy =
     (if isHit_E enemy then
        (let e = enemy\<lparr>hitTimer_E := hitTimer_E enemy - deltaTime\<rparr>
         in if hitTimer_E e \<le> 0 then e\<lparr>isHit_E := False\<rparr> else e)
      else enemy)"

definition enemy_direction :: "Enemy \<Rightarrow> Player \<Rightarrow> Vector3" where
  "enemy_direction enemy player =
     (let direction = Vector3Subtract (position_P player) (position_E enemy);
          distance = Vector3Length direction
      in if distance > 0 then Vector3Scale (Vector3Normalize direction) (speed_E enemy)
         else direction)"

definition enemy_distance :: "Enemy \<Rightarrow> Player \<Rightarrow> real" where
  "enemy_distance enemy player =
     Vector3Length (Vector3Subtract (position_P player) (position_E enemy))"

definition enemy_move ::
  "Enemy \<Rightarrow> Vector3 \<Rightarrow> BoundingBox \<Rightarrow> Vector3 \<Rightarrow> Texture2D \<Rightarrow> Enemy" where
  "enemy_move enemy direction modelBox mapPosition cubicmap =
     (let previousPosition = position_E enemy;
          e1 = enemy\<lparr>position_E := (position_E enemy)\<lparr>vec_x := vec_x (position_E enemy) + vec_x direction\<rparr>\<rparr>;
          e2 = (if CheckCollisionEnemyWithMap e1 modelBox mapPosition cubicmap
                then e1\<lparr>position_E := (position_E e1)\<lparr>vec_x := vec_x previousPosition\<rparr>\<rparr>
                else e1);
          e3 = e2\<lparr>position_E := (position_E e2)\<lparr>vec_z := vec_z (position_E e2) + vec_z direction\<rparr>\<rparr>
      in if CheckCollisionEnemyWithMap e3 modelBox mapPosition cubicmap
         then e3\<lparr>position_E := (position_E e3)\<lparr>vec_z := vec_z previousPosition\<rparr>\<rparr>
         else e3)"

definition enemy_shoot_direction :: "Enemy \<Rightarrow> Player \<Rightarrow> Vector3" where
  "enemy_shoot_direction enemy player =
     Vector3Normalize (Vector3Subtract
       \<lparr>vec_x = vec_x (position_P player),
        vec_y = vec_y (position_P player) + 1 / 2,
        vec_z = vec_z (position_P player)\<rparr>
       \<lparr>vec_x = vec_x (position_E enemy),
        vec_y = vec_y (position_E enemy) + 1 / 2,
        vec_z = vec_z (position_E enemy)\<rparr>)"

definition update_enemy ::
  "Enemy \<Rightarrow> Player \<Rightarrow> Bullet list \<Rightarrow> int \<Rightarrow> real \<Rightarrow> int \<Rightarrow> BoundingBox \<Rightarrow> Vector3 \<Rightarrow> Texture2D
   \<Rightarrow> error + (Enemy \<times> Bullet list \<times> int)" where
  "update_enemy enemy player bullets bulletCount deltaTime raw modelBox mapPosition cubicmap =
     (if active_E enemy then
        (let e1 = enemy_hit_timer deltaTime enemy;
             direction = enemy_direction e1 player;
             distance = enemy_distance e1 player;
             e2 = (if distance > 3 then enemy_move e1 direction modelBox mapPosition cubicmap
                   else e1);
             e3 = e2\<lparr>shootTimer := shootTimer e2 - deltaTime\<rparr>
         in if shootTimer e3 \<le> 0 \<and> distance < 10 then
              (case ShootBullet bullets bulletCount
                      \<lparr>vec_x = vec_x (position_E e3),
                       vec_y = vec_y (position_E e3) + 1 / 2,
                       vec_z = vec_z (position_E e3)\<rparr>
                      (enemy_shoot_direction e3 player) False of
                 Inl err \<Rightarrow> Inl err
               | Inr shot \<Rightarrow>
                   Inr (e3\<lparr>shootTimer := shootCooldown e3
                                + real_of_int (GetRandomValue (-50) 50 raw) / 100\<rparr>,
                        fst shot, snd shot))
            else Inr (e3, bullets, bulletCount))
      else Inr (enemy, bullets, bulletCount))"




text \<open>An enemy placed at other horizontal coordinates, for stating where a move ends.\<close>

definition enemy_at :: "Enemy \<Rightarrow> real \<Rightarrow> real \<Rightarrow> Enemy" where
  "enemy_at enemy x z = enemy\<lparr>position_E := (position_E enemy)\<lparr>vec_x := x, vec_z := z\<rparr>\<rparr>"


section \<open>Combat resolution\<close>

text \<open>
  \<open>CheckBulletCollisions\<close> (lines 1020-1084). The inner loop over the enemies for a
  player's bullet: it stops at the first active enemy the bullet's sphere intersects.
\<close>

definition damage_enemy :: "Enemy \<Rightarrow> Enemy" where
  "damage_enemy enemy =
     (if \<not> isHit_E enemy then
        (let e = enemy\<lparr>health_E := health_E enemy - 10, isHit_E := True, hitTimer_E := 2 / 10\<rparr>
         in if health_E e \<le> 0 then e\<lparr>active_E := False\<rparr> else e)
      else enemy)"

definition damage_player :: "Player \<Rightarrow> Player" where
  "damage_player player =
     (if \<not> isHit_P player then
        player\<lparr>health_P := health_P player - 10, isHit_P := True, hitTimer_P := 1 / 2\<rparr>
      else player)"








text \<open>
  The equations of the index loops unfold without end under the simplifier; the proofs
  unfold them one step at a time.
\<close>

declare find_inactive.simps [simp del]
declare UpdateBullets_from.simps [simp del]


section \<open>The initial state of \<open>main\<close> and a small map\<close>

text \<open>
  The player as \<open>main\<close> initialises it (lines 89-106), an enemy as its
  initialisation loop does (lines 119-135) at a given position and shoot timer, the
  bullet pool (line 138: every slot zeroed, so inactive) and the map position
  (line 154).
\<close>

definition initial_player :: Player where
  "initial_player =
     \<lparr>position_P = \<lparr>vec_x = 0, vec_y = 1 / 2, vec_z = -2\<rparr>,
      size_P = \<lparr>vec_x = 1 / 2, vec_y = 1 / 2, vec_z = 1 / 2\<rparr>,
      speed_P = 1 / 4,
      direction_P = 0,
      velocity = \<lparr>vec_x = 0, vec_y = 0, vec_z = 0\<rparr>,
      isGrounded = True,
      jumpForce = 2 / 10,
      gravity = 1 / 100,
      health_P = 100,
      isHit_P = False,
      hitTimer_P = 0\<rparr>"

definition initial_enemy :: "Vector3 \<Rightarrow> real \<Rightarrow> Enemy" where
  "initial_enemy pos timer =
     \<lparr>position_E = pos,
      size_E = \<lparr>vec_x = 1 / 2, vec_y = 1 / 2, vec_z = 1 / 2\<rparr>,
      speed_E = 13 / 100,
      shootTimer = timer,
      shootCooldown = ENEMY_SHOOT_COOLDOWN,
      active_E = True,
      health_E = 30,
      isHit_E = False,
      hitTimer_E = 0\<rparr>"

definition zero_bullet :: Bullet where
  "zero_bullet =
     \<lparr>position_B = \<lparr>vec_x = 0, vec_y = 0, vec_z = 0\<rparr>,
      direction_B = \<lparr>vec_x = 0, vec_y = 0, vec_z = 0\<rparr>,
      speed_B = 0, radius = 0,
      color_B = \<lparr>col_r = 0, col_g = 0, col_b = 0, col_a = 0\<rparr>,
      active_B = False, fromPlayer = False\<rparr>"

definition initial_bullets :: "Bullet list" where
  "initial_bullets = replicate (nat MAX_BULLETS) zero_bullet"

definition main_mapPosition :: Vector3 where
  "main_mapPosition = \<lparr>vec_x = -16, vec_y = 0, vec_z = -8\<rparr>"

text \<open>
  The map image (resources/map.png) is not part of the sources. For concrete runs: a
  32 by 16 cubicmap with one wall, the cell (17, 6), which lies one cell to the
  right of the player's starting cell (16, 6); and the bounding box of the mesh
  generated for a map of that size with unit cubes.
\<close>

definition one_wall_cubicmap :: Texture2D where
  "one_wall_cubicmap =
     \<lparr>tex_width = 32, tex_height = 16,
      tex_pixel = (\<lambda>x z. if x = 17 \<and> z = 6
                          then \<lparr>col_r = 255, col_g = 255, col_b = 255, col_a = 255\<rparr>
                          else \<lparr>col_r = 0, col_g = 0, col_b = 0, col_a = 255\<rparr>)\<rparr>"

definition one_wall_modelBox :: BoundingBox where
  "one_wall_modelBox =
     \<lparr>box_min = \<lparr>vec_x = - 1 / 2, vec_y = 0, vec_z = - 1 / 2\<rparr>,
      box_max = \<lparr>vec_x = 63 / 2, vec_y = 1, vec_z = 31 / 2\<rparr>\<rparr>"

text \<open>
  A stretch of play in which only the bullet pool matters. The player stands where the
  game starts and fires along x (the mouse ray meets the firing plane at (3, 1, -2));
  then 167 frames of \<open>UpdateBullets\<close> pass, after which the bullet is more than 50
  units from the origin and has been deactivated. \<open>shots n\<close> repeats this \<open>n\<close>
  times. The other steps of a frame can only deactivate a bullet sooner
  (\<open>CheckBulletCollisions\<close>) or fire more of them (\<open>UpdateEnemies\<close>).
\<close>

fun UpdateBullets_frames :: "nat \<Rightarrow> Bullet list \<Rightarrow> int \<Rightarrow> real \<Rightarrow> error + Bullet list" where
  "UpdateBullets_frames 0 bullets bulletCount deltaTime = Inr bullets"
| "UpdateBullets_frames (Suc n) bullets bulletCount deltaTime =
     (case UpdateBullets bullets bulletCount deltaTime of
        Inl err \<Rightarrow> Inl err
      | Inr bullets' \<Rightarrow> UpdateBullets_frames n bullets' bulletCount deltaTime)"

definition shot_and_flight :: "Bullet list \<times> int \<Rightarrow> error + (Bullet list \<times> int)" where
  "shot_and_flight pool =
     (case main_player_shoot \<lparr>vec_x = 3, vec_y = 1, vec_z = -2\<rparr> initial_player
             (fst pool) (snd pool) of
        Inl err \<Rightarrow> Inl err
      | Inr shot \<Rightarrow>
          (case UpdateBullets_frames 167 (fst shot) (snd shot) (1 / 60) of
             Inl err \<Rightarrow> Inl err
           | Inr bullets' \<Rightarrow> Inr (bullets', snd shot)))"

fun shots :: "nat \<Rightarrow> Bullet list \<times> int \<Rightarrow> error + (Bullet list \<times> int)" where
  "shots 0 pool = Inr pool"
| "shots (Suc n) pool =
     (case shots n pool of
        Inl err \<Rightarrow> Inl err
      | Inr pool' \<Rightarrow> shot_and_flight pool')"

text \<open>
  The bullet at the end of that flight, and the pool as it is after each such shot:
  slot 0 holds the spent bullet, no slot is active.
\<close>

definition spent_bullet :: Bullet where
  "spent_bullet =
     (new_bullet \<lparr>vec_x = 0, vec_y = 1, vec_z = -2\<rparr> \<lparr>vec_x = 1, vec_y = 0, vec_z = 0\<rparr> True)
       \<lparr>position_B := \<lparr>vec_x = 501 / 10, vec_y = 1, vec_z = -2\<rparr>, active_B := False\<rparr>"

definition spent_bullets :: "Bullet list" where
  "spent_bullets = initial_bullets[0 := spent_bullet]"




section \<open>Theorems\<close>

lemma clamp_axis_max_min: "lo \<le> hi \<Longrightarrow> max lo (min v hi) = clamp_axis lo hi v"
  by (simp add: clamp_axis_def max_def min_def)

lemma sphere_box_clamped:
  assumes "well_formed_box box"
  shows "CheckCollisionSphereBox center rad box
         \<longleftrightarrow> squared_distance (clamp_to_box center box) center < rad\<^sup>2"
  using assms
  by (simp add: CheckCollisionSphereBox_def squared_distance_def clamp_to_box_def
      well_formed_box_def clamp_axis_max_min power2_eq_square Let_def)

text \<open>
  C5. For a box whose minimum corner is below its maximum corner on every axis,
  \<open>CheckCollisionSphereBox\<close> answers true exactly when the squared distance from the
  centre to the centre clamped to the box is strictly below the squared radius. When
  the distance itself equals the radius, the answer is false.
\<close>

theorem C5_sphere_box_strict:
  assumes "well_formed_box box"
  shows "(CheckCollisionSphereBox center rad box
          \<longleftrightarrow> squared_distance center (clamp_to_box center box) < rad\<^sup>2)
       \<and> (sqrt (squared_distance center (clamp_to_box center box)) = rad
          \<longrightarrow> \<not> CheckCollisionSphereBox center rad box)"
proof -
  have sym: "squared_distance center (clamp_to_box center box)
             = squared_distance (clamp_to_box center box) center"
    by (simp add: squared_distance_def power2_commute)
  have iff: "CheckCollisionSphereBox center rad box
          \<longleftrightarrow> squared_distance center (clamp_to_box center box) < rad\<^sup>2"
    using sphere_box_clamped [OF assms] sym by simp
  have nonneg: "0 \<le> squared_distance center (clamp_to_box center box)"
    by (simp add: squared_distance_def)
  have "\<not> CheckCollisionSphereBox center rad box"
    if "sqrt (squared_distance center (clamp_to_box center box)) = rad"
  proof -
    from that nonneg have "rad\<^sup>2 = squared_distance center (clamp_to_box center box)"
      by (metis real_sqrt_pow2)
    with iff show ?thesis by simp
  qed
  with iff show ?thesis by blast
qed

theorem C5_sphere_box_strict_witness:
  "well_formed_box \<lparr>box_min = \<lparr>vec_x = 0, vec_y = 0, vec_z = 0\<rparr>,
                    box_max = \<lparr>vec_x = 1, vec_y = 1, vec_z = 1\<rparr>\<rparr>
   \<and> \<not> CheckCollisionSphereBox \<lparr>vec_x = 2, vec_y = 1 / 2, vec_z = 1 / 2\<rparr> 1
         \<lparr>box_min = \<lparr>vec_x = 0, vec_y = 0, vec_z = 0\<rparr>,
          box_max = \<lparr>vec_x = 1, vec_y = 1, vec_z = 1\<rparr>\<rparr>
   \<and> CheckCollisionSphereBox \<lparr>vec_x = 2, vec_y = 1 / 2, vec_z = 1 / 2\<rparr> 2
         \<lparr>box_min = \<lparr>vec_x = 0, vec_y = 0, vec_z = 0\<rparr>,
          box_max = \<lparr>vec_x = 1, vec_y = 1, vec_z = 1\<rparr>\<rparr>"
  using
    C5_sphere_box_strict [of "\<lparr>box_min = \<lparr>vec_x = 0, vec_y = 0, vec_z = 0\<rparr>,
                               box_max = \<lparr>vec_x = 1, vec_y = 1, vec_z = 1\<rparr>\<rparr>"
                             "\<lparr>vec_x = 2, vec_y = 1 / 2, vec_z = 1 / 2\<rparr>" 1]
    C5_sphere_box_strict [of "\<lparr>box_min = \<lparr>vec_x = 0, vec_y = 0, vec_z = 0\<rparr>,
                               box_max = \<lparr>vec_x = 1, vec_y = 1, vec_z = 1\<rparr>\<rparr>"
                             "\<lparr>vec_x = 2, vec_y = 1 / 2, vec_z = 1 / 2\<rparr>" 2]
  by (simp add: well_formed_box_def squared_distance_def clamp_to_box_def clamp_axis_def)


subsection \<open>Hit timers\<close>

lemma main_hit_timer_hit:
  "isHit_P p \<Longrightarrow> hitTimer_P (main_hit_timer dt p) = hitTimer_P p - dt
     \<and> (isHit_P (main_hit_timer dt p) \<longleftrightarrow> 0 < hitTimer_P p - dt)"
  by (simp add: main_hit_timer_def Let_def)

lemma main_hit_timer_not_hit: "\<not> isHit_P p \<Longrightarrow> main_hit_timer dt p = p"
  by (simp add: main_hit_timer_def)

lemma main_hit_timer_positive:
  "isHit_P (main_hit_timer dt p) \<Longrightarrow> 0 < hitTimer_P (main_hit_timer dt p)"
  by (cases "isHit_P p") (simp_all add: main_hit_timer_def Let_def split: if_splits)

lemma enemy_hit_timer_hit:
  "isHit_E e \<Longrightarrow> hitTimer_E (enemy_hit_timer dt e) = hitTimer_E e - dt
     \<and> (isHit_E (enemy_hit_timer dt e) \<longleftrightarrow> 0 < hitTimer_E e - dt)"
  by (simp add: enemy_hit_timer_def Let_def)

lemma enemy_hit_timer_not_hit: "\<not> isHit_E e \<Longrightarrow> enemy_hit_timer dt e = e"
  by (simp add: enemy_hit_timer_def)

lemma enemy_hit_timer_positive:
  "isHit_E (enemy_hit_timer dt e) \<Longrightarrow> 0 < hitTimer_E (enemy_hit_timer dt e)"
  by (cases "isHit_E e") (simp_all add: enemy_hit_timer_def Let_def split: if_splits)

lemma enemy_move_frame:
  "enemy_move e d mb mp cm = e\<lparr>position_E := position_E (enemy_move e d mb mp cm)\<rparr>"
  by (simp add: enemy_move_def Let_def)

lemma update_enemy_active:
  assumes "active_E e" "update_enemy e pl bs c dt raw mb mp cm = Inr (e', bs', c')"
  shows "\<exists>pos t. e' = (enemy_hit_timer dt e)\<lparr>position_E := pos, shootTimer := t\<rparr>"
proof -
  define e1 where "e1 = enemy_hit_timer dt e"
  define e2 where "e2 = (if enemy_distance e1 pl > 3
      then enemy_move e1 (enemy_direction e1 pl) mb mp cm else e1)"
  have e2: "e2 = e1\<lparr>position_E := position_E e2\<rparr>"
    unfolding e2_def using enemy_move_frame [of e1] by simp
  have "e' = e2\<lparr>shootTimer := shootTimer e'\<rparr>"
    using assms unfolding update_enemy_def e1_def [symmetric] Let_def e2_def [symmetric]
    by (auto split: if_splits sum.splits)
  with e2 have "e' = e1\<lparr>position_E := position_E e2, shootTimer := shootTimer e'\<rparr>"
    by (metis Enemy.update_convs(1) Enemy.surjective Enemy.update_convs(4))
  then show ?thesis unfolding e1_def by blast
qed

lemma update_enemy_inactive:
  "\<not> active_E e \<Longrightarrow> update_enemy e pl bs c dt raw mb mp cm = Inr (e, bs, c)"
  by (simp add: update_enemy_def)

lemma hit_enemy_step:
  "update_enemy (damage_enemy (initial_enemy \<lparr>vec_x = 0, vec_y = 1 / 2, vec_z = 0\<rparr> 1))
       initial_player [] 0 (1 / 10) 0 one_wall_modelBox main_mapPosition one_wall_cubicmap
   = Inr ((damage_enemy (initial_enemy \<lparr>vec_x = 0, vec_y = 1 / 2, vec_z = 0\<rparr> 1))
            \<lparr>hitTimer_E := 1 / 10, shootTimer := 9 / 10\<rparr>, [], 0)"
  unfolding update_enemy_def
  by (simp add: enemy_distance_def enemy_hit_timer_def damage_enemy_def initial_enemy_def
      initial_player_def Vector3Length_def Vector3Subtract_def Let_def)

text \<open>
  C8 as the code has it. For the player, and for an active enemy inside
  \<open>UpdateEnemies\<close>: when \<open>isHit\<close> is set the timer loses \<open>deltaTime\<close> and \<open>isHit\<close>
  stays set exactly when the new timer is positive, so right after the decay \<open>isHit\<close>
  implies a positive timer. The timer is not clamped: it keeps the value
  \<open>hitTimer - deltaTime\<close>, which is at most 0 when \<open>isHit\<close> clears. An inactive enemy
  is left as it is.
\<close>

theorem C8_hit_timer_decay:
  "(isHit_P p \<longrightarrow>
      hitTimer_P (main_hit_timer dt p) = hitTimer_P p - dt
    \<and> (isHit_P (main_hit_timer dt p) \<longleftrightarrow> 0 < hitTimer_P p - dt))
 \<and> (isHit_P (main_hit_timer dt p) \<longrightarrow> 0 < hitTimer_P (main_hit_timer dt p))
 \<and> (active_E e \<and> isHit_E e
      \<and> update_enemy e pl bs c dt raw mb mp cm = Inr (e', bs', c') \<longrightarrow>
      hitTimer_E e' = hitTimer_E e - dt
    \<and> (isHit_E e' \<longleftrightarrow> 0 < hitTimer_E e - dt))
 \<and> (active_E e \<and> update_enemy e pl bs c dt raw mb mp cm = Inr (e', bs', c') \<longrightarrow>
      (isHit_E e' \<longrightarrow> 0 < hitTimer_E e'))
 \<and> (\<not> active_E e \<longrightarrow> update_enemy e pl bs c dt raw mb mp cm = Inr (e, bs, c))"
proof (intro conjI impI)
  assume "isHit_P p"
  then show "hitTimer_P (main_hit_timer dt p) = hitTimer_P p - dt"
    and "isHit_P (main_hit_timer dt p) \<longleftrightarrow> 0 < hitTimer_P p - dt"
    using main_hit_timer_hit by simp_all
next
  assume "isHit_P (main_hit_timer dt p)"
  then show "0 < hitTimer_P (main_hit_timer dt p)" by (rule main_hit_timer_positive)
next
  assume a: "active_E e \<and> isHit_E e \<and> update_enemy e pl bs c dt raw mb mp cm = Inr (e', bs', c')"
  then obtain pos t where "e' = (enemy_hit_timer dt e)\<lparr>position_E := pos, shootTimer := t\<rparr>"
    using update_enemy_active by blast
  then have "hitTimer_E e' = hitTimer_E (enemy_hit_timer dt e)"
    and "isHit_E e' = isHit_E (enemy_hit_timer dt e)" by simp_all
  with a show "hitTimer_E e' = hitTimer_E e - dt" and "isHit_E e' \<longleftrightarrow> 0 < hitTimer_E e - dt"
    using enemy_hit_timer_hit by simp_all
next
  assume a: "active_E e \<and> update_enemy e pl bs c dt raw mb mp cm = Inr (e', bs', c')"
    and h: "isHit_E e'"
  from a obtain pos t where "e' = (enemy_hit_timer dt e)\<lparr>position_E := pos, shootTimer := t\<rparr>"
    using update_enemy_active by blast
  then have "hitTimer_E e' = hitTimer_E (enemy_hit_timer dt e)"
    and "isHit_E e' = isHit_E (enemy_hit_timer dt e)" by simp_all
  with h show "0 < hitTimer_E e'" using enemy_hit_timer_positive by simp
next
  assume "\<not> active_E e"
  then show "update_enemy e pl bs c dt raw mb mp cm = Inr (e, bs, c)"
    by (rule update_enemy_inactive)
qed

theorem C8_hit_timer_decay_witness:
  "isHit_P (damage_player initial_player)
   \<and> hitTimer_P (main_hit_timer (1 / 10) (damage_player initial_player)) = 4 / 10
   \<and> isHit_P (main_hit_timer (1 / 10) (damage_player initial_player))
   \<and> active_E (damage_enemy (initial_enemy \<lparr>vec_x = 0, vec_y = 1 / 2, vec_z = 0\<rparr> 1))
   \<and> isHit_E (damage_enemy (initial_enemy \<lparr>vec_x = 0, vec_y = 1 / 2, vec_z = 0\<rparr> 1))
   \<and> hitTimer_E ((damage_enemy (initial_enemy \<lparr>vec_x = 0, vec_y = 1 / 2, vec_z = 0\<rparr> 1))
                    \<lparr>hitTimer_E := 1 / 10, shootTimer := 9 / 10\<rparr>) = 2 / 10 - 1 / 10
   \<and> update_enemy ((initial_enemy \<lparr>vec_x = 0, vec_y = 1 / 2, vec_z = 0\<rparr> 1)\<lparr>active_E := False\<rparr>)
        initial_player [] 0 (1 / 10) 0 one_wall_modelBox main_mapPosition one_wall_cubicmap
      = Inr ((initial_enemy \<lparr>vec_x = 0, vec_y = 1 / 2, vec_z = 0\<rparr> 1)\<lparr>active_E := False\<rparr>, [], 0)"
  using
    C8_hit_timer_decay [of "damage_player initial_player" "1 / 10"
      "damage_enemy (initial_enemy \<lparr>vec_x = 0, vec_y = 1 / 2, vec_z = 0\<rparr> 1)"
      initial_player "[]" 0 0 one_wall_modelBox main_mapPosition one_wall_cubicmap
      "(damage_enemy (initial_enemy \<lparr>vec_x = 0, vec_y = 1 / 2, vec_z = 0\<rparr> 1))
          \<lparr>hitTimer_E := 1 / 10, shootTimer := 9 / 10\<rparr>" "[]" 0]
    C8_hit_timer_decay [of "damage_player initial_player" "1 / 10"
      "(initial_enemy \<lparr>vec_x = 0, vec_y = 1 / 2, vec_z = 0\<rparr> 1)\<lparr>active_E := False\<rparr>"
      initial_player "[]" 0 0 one_wall_modelBox main_mapPosition one_wall_cubicmap]
    hit_enemy_step
  by (simp add: damage_player_def initial_player_def damage_enemy_def initial_enemy_def)

text \<open>
  The claim's last part fails: the player is hit (timer 0.5), two frames of 0.3
  seconds pass, and \<open>isHit\<close> clears with the timer at -0.1; the timer was never 0.
\<close>

theorem C8_hit_timer_counterexample:
  "isHit_P (damage_player initial_player)
   \<and> hitTimer_P (damage_player initial_player) = 1 / 2
   \<and> isHit_P (main_hit_timer (3 / 10) (damage_player initial_player))
   \<and> hitTimer_P (main_hit_timer (3 / 10) (damage_player initial_player)) = 2 / 10
   \<and> \<not> isHit_P (main_hit_timer (3 / 10) (main_hit_timer (3 / 10) (damage_player initial_player)))
   \<and> hitTimer_P (main_hit_timer (3 / 10) (main_hit_timer (3 / 10) (damage_player initial_player)))
       = - 1 / 10"
  by (simp add: main_hit_timer_def damage_player_def initial_player_def Let_def)


subsection \<open>The player's map query\<close>

lemma player_cell_step_cases:
  "player_cell_step p mp cm flags cell =
     (if player_overlaps_wall p mp cm cell
      then (if near_cell_top p mp then (fst flags, True) else (True, snd flags))
      else flags)"
  by (simp add: player_cell_step_def player_overlaps_wall_def near_cell_top_def Let_def)

lemma foldl_player_cell_step:
  "foldl (player_cell_step p mp cm) flags cells =
     (fst flags \<or> (\<not> near_cell_top p mp \<and> (\<exists>cell \<in> set cells. player_overlaps_wall p mp cm cell)),
      snd flags \<or> (near_cell_top p mp \<and> (\<exists>cell \<in> set cells. player_overlaps_wall p mp cm cell)))"
proof (induction cells arbitrary: flags)
  case Nil
  show ?case by simp
next
  case (Cons cell cells)
  let ?f = "player_cell_step p mp cm"
  have "foldl ?f flags (cell # cells) = foldl ?f (?f flags cell) cells"
    by simp
  also note Cons.IH [of "?f flags cell"]
  finally have eq: "foldl ?f flags (cell # cells) =
     (fst (?f flags cell) \<or> (\<not> near_cell_top p mp \<and> (\<exists>c \<in> set cells. player_overlaps_wall p mp cm c)),
      snd (?f flags cell) \<or> (near_cell_top p mp \<and> (\<exists>c \<in> set cells. player_overlaps_wall p mp cm c)))" .
  have fs: "fst (?f flags cell) \<longleftrightarrow>
              fst flags \<or> (\<not> near_cell_top p mp \<and> player_overlaps_wall p mp cm cell)"
    and sn: "snd (?f flags cell) \<longleftrightarrow>
              snd flags \<or> (near_cell_top p mp \<and> player_overlaps_wall p mp cm cell)"
    by (simp_all add: player_cell_step_cases)
  show ?case unfolding eq fs sn by auto
qed

lemma CheckCollisionPlayerWithMap_inside:
  assumes "CheckCollisionBoxes (GetPlayerBoundingBox p) (mapBounds_of mb mp)"
  shows "CheckCollisionPlayerWithMap p mb mp cm =
     (\<not> near_cell_top p mp \<and>
        (\<exists>cell \<in> set (neighbourhood (fst (player_cell p mp)) (snd (player_cell p mp))).
            player_overlaps_wall p mp cm cell),
      if (near_cell_top p mp \<and>
           (\<exists>cell \<in> set (neighbourhood (fst (player_cell p mp)) (snd (player_cell p mp))).
            player_overlaps_wall p mp cm cell))
          \<or> vec_y (position_P p) \<le> 1 / 2
      then p\<lparr>isGrounded := True\<rparr> else p)"
  using assms
  by (simp add: CheckCollisionPlayerWithMap_def foldl_player_cell_step player_cell_def Let_def)

lemma CheckCollisionPlayerWithMap_outside:
  assumes "\<not> CheckCollisionBoxes (GetPlayerBoundingBox p) (mapBounds_of mb mp)"
  shows "CheckCollisionPlayerWithMap p mb mp cm = (True, p)"
  using assms by (simp add: CheckCollisionPlayerWithMap_def)

lemma CheckCollisionPlayerWithMap_frame:
  "snd (CheckCollisionPlayerWithMap p mb mp cm)
     = p\<lparr>isGrounded := isGrounded (snd (CheckCollisionPlayerWithMap p mb mp cm))\<rparr>"
  by (cases "CheckCollisionBoxes (GetPlayerBoundingBox p) (mapBounds_of mb mp)")
     (simp_all add: CheckCollisionPlayerWithMap_inside CheckCollisionPlayerWithMap_outside)

lemma CheckCollisionPlayerWithMap_keeps_grounded:
  "isGrounded p \<Longrightarrow> isGrounded (snd (CheckCollisionPlayerWithMap p mb mp cm))"
  by (cases "CheckCollisionBoxes (GetPlayerBoundingBox p) (mapBounds_of mb mp)")
     (simp_all add: CheckCollisionPlayerWithMap_inside CheckCollisionPlayerWithMap_outside)

text \<open>
  C10 as the code has it. The query first tests the player's box against the bounds of
  the whole map and returns at once, with the player untouched, when they do not
  intersect. Past that test it sets \<open>isGrounded\<close> exactly when the player's base is
  at most 0.5 or some wall cell of the 3x3 neighbourhood that the player's box
  intersects has its top within 0.1 of the player's base. It never clears the flag and
  writes no other field.
\<close>

theorem C10_query_sets_grounded:
  "(CheckCollisionBoxes (GetPlayerBoundingBox p) (mapBounds_of mb mp) \<longrightarrow>
      (isGrounded (snd (CheckCollisionPlayerWithMap p mb mp cm)) \<longleftrightarrow>
         isGrounded p \<or> vec_y (position_P p) \<le> 1 / 2 \<or>
         (\<exists>cell \<in> set (neighbourhood (fst (player_cell p mp)) (snd (player_cell p mp))).
             player_overlaps_wall p mp cm cell \<and> near_cell_top p mp)))
   \<and> (\<not> CheckCollisionBoxes (GetPlayerBoundingBox p) (mapBounds_of mb mp) \<longrightarrow>
        CheckCollisionPlayerWithMap p mb mp cm = (True, p))
   \<and> (isGrounded p \<longrightarrow> isGrounded (snd (CheckCollisionPlayerWithMap p mb mp cm)))
   \<and> snd (CheckCollisionPlayerWithMap p mb mp cm)
        = p\<lparr>isGrounded := isGrounded (snd (CheckCollisionPlayerWithMap p mb mp cm))\<rparr>"
proof (intro conjI impI)
  assume "CheckCollisionBoxes (GetPlayerBoundingBox p) (mapBounds_of mb mp)"
  then show "isGrounded (snd (CheckCollisionPlayerWithMap p mb mp cm)) \<longleftrightarrow>
         isGrounded p \<or> vec_y (position_P p) \<le> 1 / 2 \<or>
         (\<exists>cell \<in> set (neighbourhood (fst (player_cell p mp)) (snd (player_cell p mp))).
             player_overlaps_wall p mp cm cell \<and> near_cell_top p mp)"
    by (auto simp: CheckCollisionPlayerWithMap_inside)
next
  assume "\<not> CheckCollisionBoxes (GetPlayerBoundingBox p) (mapBounds_of mb mp)"
  then show "CheckCollisionPlayerWithMap p mb mp cm = (True, p)"
    by (rule CheckCollisionPlayerWithMap_outside)
next
  assume "isGrounded p"
  then show "isGrounded (snd (CheckCollisionPlayerWithMap p mb mp cm))"
    by (rule CheckCollisionPlayerWithMap_keeps_grounded)
next
  show "snd (CheckCollisionPlayerWithMap p mb mp cm)
        = p\<lparr>isGrounded := isGrounded (snd (CheckCollisionPlayerWithMap p mb mp cm))\<rparr>"
    by (rule CheckCollisionPlayerWithMap_frame)
qed

text \<open>The one-wall map, evaluated.\<close>

lemma one_wall_mapBounds:
  "mapBounds_of one_wall_modelBox main_mapPosition =
     \<lparr>box_min = \<lparr>vec_x = - 33 / 2, vec_y = 0, vec_z = - 17 / 2\<rparr>,
      box_max = \<lparr>vec_x = 31 / 2, vec_y = 1, vec_z = 15 / 2\<rparr>\<rparr>"
  by (simp add: mapBounds_of_def one_wall_modelBox_def main_mapPosition_def Vector3Add_def)

lemma one_wall_cellBounds:
  "cellBounds_of main_mapPosition 17 6 =
     \<lparr>box_min = \<lparr>vec_x = 1 / 2, vec_y = 0, vec_z = - 5 / 2\<rparr>,
      box_max = \<lparr>vec_x = 3 / 2, vec_y = 1, vec_z = - 3 / 2\<rparr>\<rparr>"
  by (simp add: cellBounds_of_def main_mapPosition_def Let_def)

lemma one_wall_is_wall: "cell_is_wall one_wall_cubicmap cx cz \<longleftrightarrow> cx = 17 \<and> cz = 6"
  by (simp add: cell_is_wall_def one_wall_cubicmap_def Let_def)

lemma one_wall_not_outside: "\<not> cell_outside one_wall_cubicmap 17 6"
  by (simp add: cell_outside_def one_wall_cubicmap_def)

lemma one_wall_overlap:
  "player_overlaps_wall p main_mapPosition one_wall_cubicmap cell \<longleftrightarrow>
     cell = (17, 6) \<and>
     CheckCollisionBoxes (GetPlayerBoundingBox p)
       \<lparr>box_min = \<lparr>vec_x = 1 / 2, vec_y = 0, vec_z = - 5 / 2\<rparr>,
        box_max = \<lparr>vec_x = 3 / 2, vec_y = 1, vec_z = - 3 / 2\<rparr>\<rparr>"
proof (cases "cell = (17, 6)")
  case True
  then show ?thesis
    by (simp add: player_overlaps_wall_def one_wall_is_wall one_wall_not_outside one_wall_cellBounds)
next
  case False
  then have "\<not> cell_is_wall one_wall_cubicmap (fst cell) (snd cell)"
    by (cases cell) (simp add: one_wall_is_wall)
  with False show ?thesis by (simp add: player_overlaps_wall_def)
qed

lemma one_wall_neighbourhood:
  "(\<exists>cell \<in> set (neighbourhood 16 6). player_overlaps_wall p main_mapPosition one_wall_cubicmap cell)
   \<longleftrightarrow> CheckCollisionBoxes (GetPlayerBoundingBox p)
       \<lparr>box_min = \<lparr>vec_x = 1 / 2, vec_y = 0, vec_z = - 5 / 2\<rparr>,
        box_max = \<lparr>vec_x = 3 / 2, vec_y = 1, vec_z = - 3 / 2\<rparr>\<rparr>"
  unfolding one_wall_overlap by (simp add: neighbourhood_def)

text \<open>
  The claim without the bounds test fails: a player far outside the map, base at 0.5
  and not grounded, is still not grounded after the query.
\<close>

theorem C10_query_sets_grounded_counterexample:
  "vec_y (position_P (initial_player\<lparr>position_P := \<lparr>vec_x = 100, vec_y = 1 / 2, vec_z = -2\<rparr>,
                                     isGrounded := False\<rparr>)) \<le> 1 / 2
   \<and> \<not> isGrounded (snd (CheckCollisionPlayerWithMap
          (initial_player\<lparr>position_P := \<lparr>vec_x = 100, vec_y = 1 / 2, vec_z = -2\<rparr>,
                           isGrounded := False\<rparr>)
          one_wall_modelBox main_mapPosition one_wall_cubicmap))"
  by (simp add: CheckCollisionPlayerWithMap_def one_wall_mapBounds GetPlayerBoundingBox_def
      CheckCollisionBoxes_def initial_player_def)

theorem C10_query_sets_grounded_witness:
  "CheckCollisionBoxes (GetPlayerBoundingBox (initial_player\<lparr>isGrounded := False\<rparr>))
     (mapBounds_of one_wall_modelBox main_mapPosition)
   \<and> isGrounded (snd (CheckCollisionPlayerWithMap (initial_player\<lparr>isGrounded := False\<rparr>)
          one_wall_modelBox main_mapPosition one_wall_cubicmap))
   \<and> \<not> CheckCollisionBoxes
         (GetPlayerBoundingBox (initial_player\<lparr>position_P := \<lparr>vec_x = 100, vec_y = 1 / 2, vec_z = -2\<rparr>\<rparr>))
         (mapBounds_of one_wall_modelBox main_mapPosition)
   \<and> CheckCollisionPlayerWithMap
         (initial_player\<lparr>position_P := \<lparr>vec_x = 100, vec_y = 1 / 2, vec_z = -2\<rparr>\<rparr>)
         one_wall_modelBox main_mapPosition one_wall_cubicmap
       = (True, initial_player\<lparr>position_P := \<lparr>vec_x = 100, vec_y = 1 / 2, vec_z = -2\<rparr>\<rparr>)"
  using
    C10_query_sets_grounded [of "initial_player\<lparr>isGrounded := False\<rparr>"
      one_wall_modelBox main_mapPosition one_wall_cubicmap]
    C10_query_sets_grounded [of "initial_player\<lparr>position_P := \<lparr>vec_x = 100, vec_y = 1 / 2, vec_z = -2\<rparr>\<rparr>"
      one_wall_modelBox main_mapPosition one_wall_cubicmap]
  by (simp add: one_wall_mapBounds GetPlayerBoundingBox_def CheckCollisionBoxes_def
      initial_player_def)


subsection \<open>Horizontal movement\<close>

lemma scan_cells_iff: "scan_cells hit cells \<longleftrightarrow> (\<exists>cell \<in> set cells. hit (fst cell) (snd cell))"
  by (induction cells) simp_all

lemma enemy_move_at:
  "enemy_move e d mb mp cm =
     enemy_at e
       (if CheckCollisionEnemyWithMap
             (enemy_at e (vec_x (position_E e) + vec_x d) (vec_z (position_E e))) mb mp cm
        then vec_x (position_E e) else vec_x (position_E e) + vec_x d)
       (if CheckCollisionEnemyWithMap
             (enemy_at e
                (if CheckCollisionEnemyWithMap
                      (enemy_at e (vec_x (position_E e) + vec_x d) (vec_z (position_E e))) mb mp cm
                 then vec_x (position_E e) else vec_x (position_E e) + vec_x d)
                (vec_z (position_E e) + vec_z d)) mb mp cm
        then vec_z (position_E e) else vec_z (position_E e) + vec_z d)"
proof -
  have at_x: "e\<lparr>position_E := (position_E e)\<lparr>vec_x := x\<rparr>\<rparr> = enemy_at e x (vec_z (position_E e))" for x
    by (simp add: enemy_at_def)
  have at_at: "(enemy_at e x z)\<lparr>position_E := (position_E (enemy_at e x z))\<lparr>vec_z := z'\<rparr>\<rparr>
        = enemy_at e x z'" for x z z'
    by (simp add: enemy_at_def)
  have at_back: "(enemy_at e x z)\<lparr>position_E := (position_E (enemy_at e x z))\<lparr>vec_x := x'\<rparr>\<rparr>
        = enemy_at e x' z" for x z x'
    by (simp add: enemy_at_def)
  have pos: "vec_z (position_E (enemy_at e x z)) = z" "vec_x (position_E (enemy_at e x z)) = x" for x z
    by (simp_all add: enemy_at_def)
  show ?thesis
    unfolding enemy_move_def Let_def at_x
    by (simp add: at_at at_back pos)
qed

lemma update_enemy_position:
  assumes "active_E e" "update_enemy e pl bs c dt raw mb mp cm = Inr (e', bs', c')"
  shows "position_E e' =
     (if 3 < enemy_distance e pl
      then position_E (enemy_move (enemy_hit_timer dt e) (enemy_direction e pl) mb mp cm)
      else position_E e)"
proof -
  define e1 where "e1 = enemy_hit_timer dt e"
  have p1: "position_E e1 = position_E e" "speed_E e1 = speed_E e"
    by (simp_all add: e1_def enemy_hit_timer_def Let_def)
  then have d1: "enemy_distance e1 pl = enemy_distance e pl"
    and d2: "enemy_direction e1 pl = enemy_direction e pl"
    by (simp_all add: enemy_distance_def enemy_direction_def Let_def)
  define e2 where "e2 = (if enemy_distance e1 pl > 3
      then enemy_move e1 (enemy_direction e1 pl) mb mp cm else e1)"
  have "position_E e' = position_E e2"
    using assms unfolding update_enemy_def e1_def [symmetric] Let_def e2_def [symmetric]
    by (auto split: if_splits sum.splits)
  then show ?thesis
    unfolding e2_def d1 d2 using p1 by (simp add: e1_def)
qed

text \<open>
  C1 as the code has it. An enemy's move is resolved axis by axis: the x delta is
  applied and taken back alone when the enemy then collides with the map, after which
  the z delta is applied to the position reached and taken back alone when that
  collides. So a move that collides on x only keeps its z part, and a move that
  collides on z only keeps its x part; inside \<open>UpdateEnemies\<close> an active enemy
  farther than 3 units from the player ends at the position of this move. The player's
  move is not resolved per axis: both deltas are applied, the map is queried once, and
  on a collision the whole previous position is restored.
\<close>

theorem C1_axis_by_axis:
  "enemy_move e d mb mp cm =
     enemy_at e
       (if CheckCollisionEnemyWithMap
             (enemy_at e (vec_x (position_E e) + vec_x d) (vec_z (position_E e))) mb mp cm
        then vec_x (position_E e) else vec_x (position_E e) + vec_x d)
       (if CheckCollisionEnemyWithMap
             (enemy_at e
                (if CheckCollisionEnemyWithMap
                      (enemy_at e (vec_x (position_E e) + vec_x d) (vec_z (position_E e))) mb mp cm
                 then vec_x (position_E e) else vec_x (position_E e) + vec_x d)
                (vec_z (position_E e) + vec_z d)) mb mp cm
        then vec_z (position_E e) else vec_z (position_E e) + vec_z d)
   \<and> (CheckCollisionEnemyWithMap
         (enemy_at e (vec_x (position_E e) + vec_x d) (vec_z (position_E e))) mb mp cm
       \<and> \<not> CheckCollisionEnemyWithMap
         (enemy_at e (vec_x (position_E e)) (vec_z (position_E e) + vec_z d)) mb mp cm
       \<longrightarrow> enemy_move e d mb mp cm
            = enemy_at e (vec_x (position_E e)) (vec_z (position_E e) + vec_z d))
   \<and> (\<not> CheckCollisionEnemyWithMap
         (enemy_at e (vec_x (position_E e) + vec_x d) (vec_z (position_E e))) mb mp cm
       \<and> CheckCollisionEnemyWithMap
         (enemy_at e (vec_x (position_E e) + vec_x d) (vec_z (position_E e) + vec_z d)) mb mp cm
       \<longrightarrow> enemy_move e d mb mp cm
            = enemy_at e (vec_x (position_E e) + vec_x d) (vec_z (position_E e)))
   \<and> (active_E e \<and> 3 < enemy_distance e pl
       \<and> update_enemy e pl bs c dt raw mb mp cm = Inr (e', bs', c')
       \<longrightarrow> position_E e'
            = position_E (enemy_move (enemy_hit_timer dt e) (enemy_direction e pl) mb mp cm))
   \<and> (fst (CheckCollisionPlayerWithMap (main_apply_keys keys p) mb mp cm)
       \<longrightarrow> position_P (main_move_player keys p mb mp cm) = position_P p)
   \<and> (\<not> fst (CheckCollisionPlayerWithMap (main_apply_keys keys p) mb mp cm)
       \<longrightarrow> position_P (main_move_player keys p mb mp cm) = position_P (main_apply_keys keys p))"
proof (intro conjI impI)
  show "enemy_move e d mb mp cm =
     enemy_at e
       (if CheckCollisionEnemyWithMap
             (enemy_at e (vec_x (position_E e) + vec_x d) (vec_z (position_E e))) mb mp cm
        then vec_x (position_E e) else vec_x (position_E e) + vec_x d)
       (if CheckCollisionEnemyWithMap
             (enemy_at e
                (if CheckCollisionEnemyWithMap
                      (enemy_at e (vec_x (position_E e) + vec_x d) (vec_z (position_E e))) mb mp cm
                 then vec_x (position_E e) else vec_x (position_E e) + vec_x d)
                (vec_z (position_E e) + vec_z d)) mb mp cm
        then vec_z (position_E e) else vec_z (position_E e) + vec_z d)"
    by (rule enemy_move_at)
next
  assume "CheckCollisionEnemyWithMap
         (enemy_at e (vec_x (position_E e) + vec_x d) (vec_z (position_E e))) mb mp cm
       \<and> \<not> CheckCollisionEnemyWithMap
         (enemy_at e (vec_x (position_E e)) (vec_z (position_E e) + vec_z d)) mb mp cm"
  then show "enemy_move e d mb mp cm
            = enemy_at e (vec_x (position_E e)) (vec_z (position_E e) + vec_z d)"
    by (subst enemy_move_at) simp
next
  assume "\<not> CheckCollisionEnemyWithMap
         (enemy_at e (vec_x (position_E e) + vec_x d) (vec_z (position_E e))) mb mp cm
       \<and> CheckCollisionEnemyWithMap
         (enemy_at e (vec_x (position_E e) + vec_x d) (vec_z (position_E e) + vec_z d)) mb mp cm"
  then show "enemy_move e d mb mp cm
            = enemy_at e (vec_x (position_E e) + vec_x d) (vec_z (position_E e))"
    by (subst enemy_move_at) simp
next
  assume "active_E e \<and> 3 < enemy_distance e pl
       \<and> update_enemy e pl bs c dt raw mb mp cm = Inr (e', bs', c')"
  then show "position_E e'
            = position_E (enemy_move (enemy_hit_timer dt e) (enemy_direction e pl) mb mp cm)"
    using update_enemy_position [of e pl bs c dt raw mb mp cm e' bs' c'] by simp
next
  assume "fst (CheckCollisionPlayerWithMap (main_apply_keys keys p) mb mp cm)"
  then show "position_P (main_move_player keys p mb mp cm) = position_P p"
    by (simp add: main_move_player_def Let_def)
next
  assume "\<not> fst (CheckCollisionPlayerWithMap (main_apply_keys keys p) mb mp cm)"
  then have "main_move_player keys p mb mp cm
      = snd (CheckCollisionPlayerWithMap (main_apply_keys keys p) mb mp cm)"
    by (simp add: main_move_player_def Let_def)
  then show "position_P (main_move_player keys p mb mp cm) = position_P (main_apply_keys keys p)"
    using CheckCollisionPlayerWithMap_frame [of "main_apply_keys keys p" mb mp cm]
    by (metis Player.select_convs(1) Player.surjective Player.update_convs(6))
qed

lemma one_wall_player_query:
  assumes "CheckCollisionBoxes (GetPlayerBoundingBox p) (mapBounds_of one_wall_modelBox main_mapPosition)"
    and "player_cell p main_mapPosition = (16, 6)"
  shows "fst (CheckCollisionPlayerWithMap p one_wall_modelBox main_mapPosition one_wall_cubicmap)
     \<longleftrightarrow> \<not> near_cell_top p main_mapPosition \<and>
         CheckCollisionBoxes (GetPlayerBoundingBox p)
           \<lparr>box_min = \<lparr>vec_x = 1 / 2, vec_y = 0, vec_z = - 5 / 2\<rparr>,
            box_max = \<lparr>vec_x = 3 / 2, vec_y = 1, vec_z = - 3 / 2\<rparr>\<rparr>"
  using assms by (simp add: CheckCollisionPlayerWithMap_inside one_wall_neighbourhood)

lemma main_mapPosition_sel:
  "vec_x main_mapPosition = -16" "vec_y main_mapPosition = 0" "vec_z main_mapPosition = -8"
  by (simp_all add: main_mapPosition_def)

lemmas player_eval = main_apply_keys_def initial_player_def GetPlayerBoundingBox_def
  CheckCollisionBoxes_def near_cell_top_def player_cell_def int_of_float_def
  one_wall_mapBounds main_mapPosition_sel

lemma diag_collides:
  "fst (CheckCollisionPlayerWithMap
     (main_apply_keys \<lparr>key_right = True, key_left = False, key_down = True, key_up = False\<rparr> initial_player)
     one_wall_modelBox main_mapPosition one_wall_cubicmap)"
  by (subst one_wall_player_query) (simp_all add: player_eval)

lemma right_collides:
  "fst (CheckCollisionPlayerWithMap
     (main_apply_keys \<lparr>key_right = True, key_left = False, key_down = False, key_up = False\<rparr> initial_player)
     one_wall_modelBox main_mapPosition one_wall_cubicmap)"
  by (subst one_wall_player_query) (simp_all add: player_eval)

lemma down_free:
  "\<not> fst (CheckCollisionPlayerWithMap
     (main_apply_keys \<lparr>key_right = False, key_left = False, key_down = True, key_up = False\<rparr> initial_player)
     one_wall_modelBox main_mapPosition one_wall_cubicmap)"
  by (subst one_wall_player_query) (simp_all add: player_eval)

text \<open>
  The claim fails for the player. Next to the wall cell (17, 6), moving right collides
  and moving down does not; with both keys held the player ends where it started,
  while the move down alone would have ended at z = -1.75.
\<close>

theorem C1_axis_by_axis_counterexample:
  "fst (CheckCollisionPlayerWithMap
     (main_apply_keys \<lparr>key_right = True, key_left = False, key_down = False, key_up = False\<rparr> initial_player)
     one_wall_modelBox main_mapPosition one_wall_cubicmap)
   \<and> \<not> fst (CheckCollisionPlayerWithMap
     (main_apply_keys \<lparr>key_right = False, key_left = False, key_down = True, key_up = False\<rparr> initial_player)
     one_wall_modelBox main_mapPosition one_wall_cubicmap)
   \<and> position_P (main_move_player
        \<lparr>key_right = False, key_left = False, key_down = True, key_up = False\<rparr> initial_player
        one_wall_modelBox main_mapPosition one_wall_cubicmap)
      = \<lparr>vec_x = 0, vec_y = 1 / 2, vec_z = - 7 / 4\<rparr>
   \<and> position_P (main_move_player
        \<lparr>key_right = True, key_left = False, key_down = True, key_up = False\<rparr> initial_player
        one_wall_modelBox main_mapPosition one_wall_cubicmap)
      = \<lparr>vec_x = 0, vec_y = 1 / 2, vec_z = - 2\<rparr>"
proof -
  have "position_P (main_move_player
        \<lparr>key_right = True, key_left = False, key_down = True, key_up = False\<rparr> initial_player
        one_wall_modelBox main_mapPosition one_wall_cubicmap) = position_P initial_player"
    using diag_collides by (simp add: main_move_player_def Let_def)
  moreover have "main_move_player
        \<lparr>key_right = False, key_left = False, key_down = True, key_up = False\<rparr> initial_player
        one_wall_modelBox main_mapPosition one_wall_cubicmap
      = snd (CheckCollisionPlayerWithMap
     (main_apply_keys \<lparr>key_right = False, key_left = False, key_down = True, key_up = False\<rparr> initial_player)
     one_wall_modelBox main_mapPosition one_wall_cubicmap)"
    using down_free by (simp add: main_move_player_def Let_def)
  then have "position_P (main_move_player
        \<lparr>key_right = False, key_left = False, key_down = True, key_up = False\<rparr> initial_player
        one_wall_modelBox main_mapPosition one_wall_cubicmap)
      = position_P (main_apply_keys \<lparr>key_right = False, key_left = False, key_down = True, key_up = False\<rparr> initial_player)"
    using CheckCollisionPlayerWithMap_frame
    by (metis Player.select_convs(1) Player.surjective Player.update_convs(6))
  ultimately show ?thesis
    using right_collides down_free by (simp add: main_apply_keys_def initial_player_def)
qed

lemma one_wall_enemy_query:
  "CheckCollisionEnemyWithMap e one_wall_modelBox main_mapPosition one_wall_cubicmap \<longleftrightarrow>
     \<not> CheckCollisionBoxes (GetEnemyBoundingBox e) (mapBounds_of one_wall_modelBox main_mapPosition) \<or>
     ((17, 6) \<in> set (neighbourhood (int_of_float (vec_x (position_E e) - vec_x main_mapPosition))
                                  (int_of_float (vec_z (position_E e) - vec_z main_mapPosition)))
      \<and> CheckCollisionBoxes (GetEnemyBoundingBox e)
           \<lparr>box_min = \<lparr>vec_x = 1 / 2, vec_y = 0, vec_z = - 5 / 2\<rparr>,
            box_max = \<lparr>vec_x = 3 / 2, vec_y = 1, vec_z = - 3 / 2\<rparr>\<rparr>)"
proof -
  have hit: "(\<not> cell_outside one_wall_cubicmap (fst cell) (snd cell) \<and>
        cell_is_wall one_wall_cubicmap (fst cell) (snd cell) \<and>
        CheckCollisionBoxes (GetEnemyBoundingBox e) (cellBounds_of main_mapPosition (fst cell) (snd cell)))
      \<longleftrightarrow> cell = (17, 6) \<and> CheckCollisionBoxes (GetEnemyBoundingBox e)
           \<lparr>box_min = \<lparr>vec_x = 1 / 2, vec_y = 0, vec_z = - 5 / 2\<rparr>,
            box_max = \<lparr>vec_x = 3 / 2, vec_y = 1, vec_z = - 3 / 2\<rparr>\<rparr>" for cell
  proof (cases "cell = (17, 6)")
    case True
    then show ?thesis by (simp add: one_wall_is_wall one_wall_not_outside one_wall_cellBounds)
  next
    case False
    then have "\<not> cell_is_wall one_wall_cubicmap (fst cell) (snd cell)"
      by (cases cell) (simp add: one_wall_is_wall)
    with False show ?thesis by simp
  qed
  show ?thesis
    unfolding CheckCollisionEnemyWithMap_def Let_def scan_cells_iff hit by auto
qed

lemmas enemy_eval = enemy_at_def initial_enemy_def GetEnemyBoundingBox_def
  CheckCollisionBoxes_def int_of_float_def one_wall_mapBounds main_mapPosition_sel
  neighbourhood_def

lemma enemy_x_blocked:
  "CheckCollisionEnemyWithMap
     (enemy_at (initial_enemy \<lparr>vec_x = 0, vec_y = 1 / 2, vec_z = -2\<rparr> 1) (1 / 4) (-2))
     one_wall_modelBox main_mapPosition one_wall_cubicmap"
  by (subst one_wall_enemy_query) (simp add: enemy_eval)

lemma enemy_z_free:
  "\<not> CheckCollisionEnemyWithMap
     (enemy_at (initial_enemy \<lparr>vec_x = 0, vec_y = 1 / 2, vec_z = -2\<rparr> 1) 0 (- 7 / 4))
     one_wall_modelBox main_mapPosition one_wall_cubicmap"
  by (subst one_wall_enemy_query) (simp add: enemy_eval)

lemma enemy_x_free:
  "\<not> CheckCollisionEnemyWithMap
     (enemy_at (initial_enemy \<lparr>vec_x = 1, vec_y = 1 / 2, vec_z = -1\<rparr> 1) (5 / 4) (-1))
     one_wall_modelBox main_mapPosition one_wall_cubicmap"
  by (subst one_wall_enemy_query) (simp add: enemy_eval)

lemma enemy_z_blocked:
  "CheckCollisionEnemyWithMap
     (enemy_at (initial_enemy \<lparr>vec_x = 1, vec_y = 1 / 2, vec_z = -1\<rparr> 1) (5 / 4) (- 5 / 4))
     one_wall_modelBox main_mapPosition one_wall_cubicmap"
  by (subst one_wall_enemy_query) (simp add: enemy_eval)

lemma far_enemy_step:
  "update_enemy (initial_enemy \<lparr>vec_x = 0, vec_y = 1 / 2, vec_z = -7\<rparr> 1)
       initial_player [] 0 (1 / 10) 0 one_wall_modelBox main_mapPosition one_wall_cubicmap
   = Inr ((initial_enemy \<lparr>vec_x = 0, vec_y = 1 / 2, vec_z = -7\<rparr> 1)
            \<lparr>position_E := \<lparr>vec_x = 0, vec_y = 1 / 2, vec_z = - 687 / 100\<rparr>,
             shootTimer := 9 / 10\<rparr>, [], 0)"
proof -
  let ?e = "initial_enemy \<lparr>vec_x = 0, vec_y = 1 / 2, vec_z = -7\<rparr> 1"
  have t: "enemy_hit_timer (1 / 10) ?e = ?e"
    by (simp add: enemy_hit_timer_def initial_enemy_def)
  have dist: "enemy_distance ?e initial_player = 5"
    by (simp add: enemy_distance_def initial_enemy_def initial_player_def
        Vector3Length_def Vector3Subtract_def)
  have dir: "enemy_direction ?e initial_player = \<lparr>vec_x = 0, vec_y = 0, vec_z = 13 / 100\<rparr>"
    by (simp add: enemy_direction_def initial_enemy_def initial_player_def
        Vector3Length_def Vector3Subtract_def Vector3Normalize_def Vector3Scale_def Let_def)
  have x: "\<not> CheckCollisionEnemyWithMap (enemy_at ?e 0 (-7))
         one_wall_modelBox main_mapPosition one_wall_cubicmap"
    by (subst one_wall_enemy_query) (simp add: enemy_eval)
  have z: "\<not> CheckCollisionEnemyWithMap (enemy_at ?e 0 (- 687 / 100))
         one_wall_modelBox main_mapPosition one_wall_cubicmap"
    by (subst one_wall_enemy_query) (simp add: enemy_eval)
  have mv: "enemy_move ?e \<lparr>vec_x = 0, vec_y = 0, vec_z = 13 / 100\<rparr>
       one_wall_modelBox main_mapPosition one_wall_cubicmap = enemy_at ?e 0 (- 687 / 100)"
    using x z by (subst enemy_move_at) (simp add: initial_enemy_def)
  show ?thesis
    unfolding update_enemy_def Let_def t dist dir mv
    by (simp add: enemy_at_def initial_enemy_def)
qed

theorem C1_axis_by_axis_witness:
  "enemy_move (initial_enemy \<lparr>vec_x = 0, vec_y = 1 / 2, vec_z = -2\<rparr> 1)
       \<lparr>vec_x = 1 / 4, vec_y = 0, vec_z = 1 / 4\<rparr>
       one_wall_modelBox main_mapPosition one_wall_cubicmap
     = enemy_at (initial_enemy \<lparr>vec_x = 0, vec_y = 1 / 2, vec_z = -2\<rparr> 1) 0 (- 7 / 4)
   \<and> enemy_move (initial_enemy \<lparr>vec_x = 1, vec_y = 1 / 2, vec_z = -1\<rparr> 1)
       \<lparr>vec_x = 1 / 4, vec_y = 0, vec_z = - 1 / 4\<rparr>
       one_wall_modelBox main_mapPosition one_wall_cubicmap
     = enemy_at (initial_enemy \<lparr>vec_x = 1, vec_y = 1 / 2, vec_z = -1\<rparr> 1) (5 / 4) (-1)
   \<and> position_E (enemy_move
         (enemy_hit_timer (1 / 10) (initial_enemy \<lparr>vec_x = 0, vec_y = 1 / 2, vec_z = -7\<rparr> 1))
         (enemy_direction (initial_enemy \<lparr>vec_x = 0, vec_y = 1 / 2, vec_z = -7\<rparr> 1) initial_player)
         one_wall_modelBox main_mapPosition one_wall_cubicmap)
     = \<lparr>vec_x = 0, vec_y = 1 / 2, vec_z = - 687 / 100\<rparr>
   \<and> position_P (main_move_player
         \<lparr>key_right = True, key_left = False, key_down = False, key_up = False\<rparr> initial_player
         one_wall_modelBox main_mapPosition one_wall_cubicmap)
     = \<lparr>vec_x = 0, vec_y = 1 / 2, vec_z = -2\<rparr>
   \<and> position_P (main_move_player
         \<lparr>key_right = False, key_left = False, key_down = True, key_up = False\<rparr> initial_player
         one_wall_modelBox main_mapPosition one_wall_cubicmap)
     = \<lparr>vec_x = 0, vec_y = 1 / 2, vec_z = - 7 / 4\<rparr>"
proof (intro conjI)
  show "enemy_move (initial_enemy \<lparr>vec_x = 0, vec_y = 1 / 2, vec_z = -2\<rparr> 1)
       \<lparr>vec_x = 1 / 4, vec_y = 0, vec_z = 1 / 4\<rparr>
       one_wall_modelBox main_mapPosition one_wall_cubicmap
     = enemy_at (initial_enemy \<lparr>vec_x = 0, vec_y = 1 / 2, vec_z = -2\<rparr> 1) 0 (- 7 / 4)"
    using enemy_x_blocked enemy_z_free
      C1_axis_by_axis [where e = "initial_enemy \<lparr>vec_x = 0, vec_y = 1 / 2, vec_z = -2\<rparr> 1"
        and d = "\<lparr>vec_x = 1 / 4, vec_y = 0, vec_z = 1 / 4\<rparr>"
        and mb = one_wall_modelBox and mp = main_mapPosition and cm = one_wall_cubicmap]
    by (simp add: initial_enemy_def)
  show "enemy_move (initial_enemy \<lparr>vec_x = 1, vec_y = 1 / 2, vec_z = -1\<rparr> 1)
       \<lparr>vec_x = 1 / 4, vec_y = 0, vec_z = - 1 / 4\<rparr>
       one_wall_modelBox main_mapPosition one_wall_cubicmap
     = enemy_at (initial_enemy \<lparr>vec_x = 1, vec_y = 1 / 2, vec_z = -1\<rparr> 1) (5 / 4) (-1)"
    using enemy_x_free enemy_z_blocked
      C1_axis_by_axis [where e = "initial_enemy \<lparr>vec_x = 1, vec_y = 1 / 2, vec_z = -1\<rparr> 1"
        and d = "\<lparr>vec_x = 1 / 4, vec_y = 0, vec_z = - 1 / 4\<rparr>"
        and mb = one_wall_modelBox and mp = main_mapPosition and cm = one_wall_cubicmap]
    by (simp add: initial_enemy_def)
  have far: "3 < enemy_distance (initial_enemy \<lparr>vec_x = 0, vec_y = 1 / 2, vec_z = -7\<rparr> 1) initial_player"
    by (simp add: enemy_distance_def initial_enemy_def initial_player_def
        Vector3Length_def Vector3Subtract_def)
  show "position_E (enemy_move
         (enemy_hit_timer (1 / 10) (initial_enemy \<lparr>vec_x = 0, vec_y = 1 / 2, vec_z = -7\<rparr> 1))
         (enemy_direction (initial_enemy \<lparr>vec_x = 0, vec_y = 1 / 2, vec_z = -7\<rparr> 1) initial_player)
         one_wall_modelBox main_mapPosition one_wall_cubicmap)
     = \<lparr>vec_x = 0, vec_y = 1 / 2, vec_z = - 687 / 100\<rparr>"
    using far far_enemy_step
      C1_axis_by_axis [where e = "initial_enemy \<lparr>vec_x = 0, vec_y = 1 / 2, vec_z = -7\<rparr> 1"
        and pl = initial_player and bs = "[]" and c = 0 and dt = "1 / 10" and raw = 0
        and mb = one_wall_modelBox and mp = main_mapPosition and cm = one_wall_cubicmap
        and e' = "(initial_enemy \<lparr>vec_x = 0, vec_y = 1 / 2, vec_z = -7\<rparr> 1)
            \<lparr>position_E := \<lparr>vec_x = 0, vec_y = 1 / 2, vec_z = - 687 / 100\<rparr>,
             shootTimer := 9 / 10\<rparr>" and bs' = "[]" and c' = 0]
    by (simp add: initial_enemy_def)
  show "position_P (main_move_player
         \<lparr>key_right = True, key_left = False, key_down = False, key_up = False\<rparr> initial_player
         one_wall_modelBox main_mapPosition one_wall_cubicmap)
     = \<lparr>vec_x = 0, vec_y = 1 / 2, vec_z = -2\<rparr>"
    using right_collides
      C1_axis_by_axis [where keys = "\<lparr>key_right = True, key_left = False, key_down = False, key_up = False\<rparr>"
        and p = initial_player
        and mb = one_wall_modelBox and mp = main_mapPosition and cm = one_wall_cubicmap]
    by (simp add: initial_player_def)
  show "position_P (main_move_player
         \<lparr>key_right = False, key_left = False, key_down = True, key_up = False\<rparr> initial_player
         one_wall_modelBox main_mapPosition one_wall_cubicmap)
     = \<lparr>vec_x = 0, vec_y = 1 / 2, vec_z = - 7 / 4\<rparr>"
    using down_free
      C1_axis_by_axis [where keys = "\<lparr>key_right = False, key_left = False, key_down = True, key_up = False\<rparr>"
        and p = initial_player
        and mb = one_wall_modelBox and mp = main_mapPosition and cm = one_wall_cubicmap]
    by (simp add: initial_player_def main_apply_keys_def)
qed


subsection \<open>Vertical physics of the player\<close>































subsection \<open>Firing a bullet\<close>


lemma find_inactive_found:
  assumes "i \<le> k" "k < length bullets" "int k < MAX_BULLETS" "\<not> active_B (bullets ! k)"
    and "\<forall>j. i \<le> j \<and> j < k \<longrightarrow> active_B (bullets ! j)"
  shows "find_inactive bullets i = Inr (int k)"
  using assms
proof (induction "k - i" arbitrary: i)
  case 0
  then have "i = k" by simp
  with 0 show ?case by (subst find_inactive.simps) simp
next
  case (Suc n)
  then have "i < k" by simp
  with Suc.prems have act: "active_B (bullets ! i)" by simp
  have "find_inactive bullets (Suc i) = Inr (int k)"
    using Suc.hyps(2) Suc.prems \<open>i < k\<close> by (intro Suc.hyps(1)) auto
  with \<open>i < k\<close> Suc.prems act show ?case
    by (subst find_inactive.simps) simp
qed


lemma ShootBullet_full:
  "MAX_BULLETS \<le> bulletCount \<Longrightarrow> ShootBullet bullets bulletCount pos dir fp = Inr (bullets, bulletCount)"
  by (simp add: ShootBullet_def)

lemma ShootBullet_free_slot:
  assumes "bulletCount < MAX_BULLETS" "i < length bullets" "int i < MAX_BULLETS"
    and "\<not> active_B (bullets ! i)" "\<forall>j<i. active_B (bullets ! j)"
  shows "ShootBullet bullets bulletCount pos dir fp
       = Inr (bullets[i := new_bullet pos dir fp], bulletCount + 1)"
proof -
  have "find_inactive bullets 0 = Inr (int i)"
    using assms by (intro find_inactive_found) auto
  with assms show ?thesis by (simp add: ShootBullet_def)
qed





lemma initial_bullets_nth: "i < length initial_bullets \<Longrightarrow> initial_bullets ! i = zero_bullet"
  by (simp add: initial_bullets_def)



subsection \<open>Direction of a shot\<close>














subsection \<open>Advancing the bullets\<close>

lemma UpdateBullets_from_nth:
  assumes "bulletCount \<le> int (length bullets)"
  shows "\<exists>bullets'. UpdateBullets_from i bullets bulletCount dt = Inr bullets'
      \<and> length bullets' = length bullets
      \<and> (\<forall>j<length bullets. bullets' ! j =
            (if i \<le> j \<and> int j < bulletCount then advance_bullet (bullets ! j) else bullets ! j))"
  using assms
proof (induction "nat bulletCount - i" arbitrary: i bullets)
  case 0
  then have "\<not> int i < bulletCount" by simp
  then show ?case by (subst UpdateBullets_from.simps) auto
next
  case (Suc n)
  then have lt: "int i < bulletCount" by simp
  with Suc.prems have inb: "i < length bullets" by simp
  let ?bs = "bullets[i := advance_bullet (bullets ! i)]"
  have "n = nat bulletCount - Suc i" using Suc.hyps(2) by simp
  moreover have "bulletCount \<le> int (length ?bs)" using Suc.prems by simp
  ultimately obtain bullets' where r: "UpdateBullets_from (Suc i) ?bs bulletCount dt = Inr bullets'"
    and l: "length bullets' = length ?bs"
    and n: "\<forall>j<length ?bs. bullets' ! j =
            (if Suc i \<le> j \<and> int j < bulletCount then advance_bullet (?bs ! j) else ?bs ! j)"
    using Suc.hyps(1) [of "Suc i" ?bs] by blast
  have "UpdateBullets_from i bullets bulletCount dt = Inr bullets'"
    using lt inb r by (subst UpdateBullets_from.simps) simp
  moreover have "length bullets' = length bullets" using l by simp
  moreover have "\<forall>j<length bullets. bullets' ! j =
            (if i \<le> j \<and> int j < bulletCount then advance_bullet (bullets ! j) else bullets ! j)"
  proof (intro allI impI)
    fix j assume j: "j < length bullets"
    with n have e: "bullets' ! j =
            (if Suc i \<le> j \<and> int j < bulletCount then advance_bullet (?bs ! j) else ?bs ! j)"
      by simp
    show "bullets' ! j =
            (if i \<le> j \<and> int j < bulletCount then advance_bullet (bullets ! j) else bullets ! j)"
    proof (cases "j = i")
      case True
      with e lt inb show ?thesis by simp
    next
      case False
      with e j show ?thesis by auto
    qed
  qed
  ultimately show ?case by blast
qed

lemma UpdateBullets_dt:
  "UpdateBullets_from i bullets bulletCount dt' = UpdateBullets_from i bullets bulletCount dt"
proof (induction i bullets bulletCount dt rule: UpdateBullets_from.induct)
  case (1 i bullets bulletCount deltaTime)
  show ?case
  proof (cases "int i < bulletCount \<and> \<not> length bullets \<le> i")
    case True
    then have "UpdateBullets_from (Suc i) (bullets[i := advance_bullet (bullets ! i)]) bulletCount dt'
        = UpdateBullets_from (Suc i) (bullets[i := advance_bullet (bullets ! i)]) bulletCount deltaTime"
      using "1.IH" by simp
    with True show ?thesis
      by (subst UpdateBullets_from.simps, subst (2) UpdateBullets_from.simps) simp
  next
    case False
    then show ?thesis
      by (subst UpdateBullets_from.simps, subst (2) UpdateBullets_from.simps) auto
  qed
qed

lemma advance_bullet_inactive: "\<not> active_B b \<Longrightarrow> advance_bullet b = b"
  by (simp add: advance_bullet_def)

lemma advance_bullet_active:
  assumes "active_B b"
  shows "position_B (advance_bullet b) =
           \<lparr>vec_x = vec_x (position_B b) + vec_x (direction_B b) * speed_B b,
            vec_y = vec_y (position_B b) + vec_y (direction_B b) * speed_B b,
            vec_z = vec_z (position_B b) + vec_z (direction_B b) * speed_B b\<rparr>"
    and "active_B (advance_bullet b) \<longleftrightarrow> \<not> 50 < Vector3Length (position_B (advance_bullet b))"
    and "advance_bullet b = b\<lparr>position_B := position_B (advance_bullet b),
                              active_B := active_B (advance_bullet b)\<rparr>"
  using assms by (simp_all add: advance_bullet_def Let_def)



lemma UpdateBullets_active_below_count:
  assumes "bulletCount \<le> int (length bullets)" "active_below_count bullets bulletCount"
    and "UpdateBullets bullets bulletCount dt = Inr bullets'"
  shows "active_below_count bullets' bulletCount"
proof -
  from UpdateBullets_from_nth [OF assms(1), of 0 dt] assms(3)
  have l: "length bullets' = length bullets"
    and n: "\<forall>j<length bullets. bullets' ! j =
            (if int j < bulletCount then advance_bullet (bullets ! j) else bullets ! j)"
    by (auto simp: UpdateBullets_def)
  show ?thesis
    unfolding active_below_count_def
  proof (intro allI impI)
    fix i assume "i < length bullets'" "active_B (bullets' ! i)"
    with l n have a: "active_B (if int i < bulletCount then advance_bullet (bullets ! i) else bullets ! i)"
      and b: "i < length bullets"
      by simp_all
    show "int i < bulletCount"
    proof (rule ccontr)
      assume c: "\<not> int i < bulletCount"
      with a have "active_B (bullets ! i)" by simp
      with b assms(2) have "int i < bulletCount" by (simp add: active_below_count_def)
      with c show False by simp
    qed
  qed
qed

text \<open>
  C7. In a pool where every active bullet lies below \<open>bulletCount\<close> (as in every
  state the program reaches: see \<open>active_below_count_initial\<close>,
  \<open>ShootBullet_active_below_count\<close>, \<open>UpdateBullets_active_below_count\<close>) and
  \<open>bulletCount\<close> does not exceed the array, \<open>UpdateBullets\<close> moves each active
  bullet by its direction times its speed, whatever \<open>deltaTime\<close> is, and the bullet
  is active afterwards exactly when the length of its new position does not exceed 50;
  no other field changes, and an inactive bullet is left as it is.
\<close>

theorem C7_advance_bullets:
  assumes "bulletCount \<le> int (length bullets)" and "active_below_count bullets bulletCount"
  shows "\<exists>bullets'.
           UpdateBullets bullets bulletCount dt = Inr bullets'
         \<and> length bullets' = length bullets
         \<and> (\<forall>i<length bullets.
               (active_B (bullets ! i) \<longrightarrow>
                  position_B (bullets' ! i) =
                    \<lparr>vec_x = vec_x (position_B (bullets ! i))
                              + vec_x (direction_B (bullets ! i)) * speed_B (bullets ! i),
                     vec_y = vec_y (position_B (bullets ! i))
                              + vec_y (direction_B (bullets ! i)) * speed_B (bullets ! i),
                     vec_z = vec_z (position_B (bullets ! i))
                              + vec_z (direction_B (bullets ! i)) * speed_B (bullets ! i)\<rparr>
                \<and> (active_B (bullets' ! i) \<longleftrightarrow>
                      \<not> 50 < Vector3Length (position_B (bullets' ! i)))
                \<and> bullets' ! i = (bullets ! i)\<lparr>position_B := position_B (bullets' ! i),
                                                active_B := active_B (bullets' ! i)\<rparr>)
             \<and> (\<not> active_B (bullets ! i) \<longrightarrow> bullets' ! i = bullets ! i))
         \<and> UpdateBullets bullets bulletCount dt' = Inr bullets'"
proof -
  from UpdateBullets_from_nth [OF assms(1), of 0 dt]
  obtain bullets' where r0: "UpdateBullets_from 0 bullets bulletCount dt = Inr bullets'"
    and l: "length bullets' = length bullets"
    and n0: "\<forall>j<length bullets. bullets' ! j =
            (if 0 \<le> j \<and> int j < bulletCount then advance_bullet (bullets ! j) else bullets ! j)"
    by (elim exE conjE)
  from r0 have r: "UpdateBullets bullets bulletCount dt = Inr bullets'"
    by (simp add: UpdateBullets_def)
  from n0 have n: "\<forall>j<length bullets. bullets' ! j =
            (if int j < bulletCount then advance_bullet (bullets ! j) else bullets ! j)"
    by simp
  have adv: "bullets' ! i = advance_bullet (bullets ! i)" if "i < length bullets" for i
  proof (cases "active_B (bullets ! i)")
    case True
    with that assms(2) have "int i < bulletCount" by (simp add: active_below_count_def)
    with n that show ?thesis by simp
  next
    case False
    with n that show ?thesis by (simp add: advance_bullet_inactive)
  qed
  have "UpdateBullets bullets bulletCount dt' = Inr bullets'"
    using r UpdateBullets_dt [of 0 bullets bulletCount dt' dt] by (simp add: UpdateBullets_def)
  moreover have "\<forall>i<length bullets.
               (active_B (bullets ! i) \<longrightarrow>
                  position_B (bullets' ! i) =
                    \<lparr>vec_x = vec_x (position_B (bullets ! i))
                              + vec_x (direction_B (bullets ! i)) * speed_B (bullets ! i),
                     vec_y = vec_y (position_B (bullets ! i))
                              + vec_y (direction_B (bullets ! i)) * speed_B (bullets ! i),
                     vec_z = vec_z (position_B (bullets ! i))
                              + vec_z (direction_B (bullets ! i)) * speed_B (bullets ! i)\<rparr>
                \<and> (active_B (bullets' ! i) \<longleftrightarrow>
                      \<not> 50 < Vector3Length (position_B (bullets' ! i)))
                \<and> bullets' ! i = (bullets ! i)\<lparr>position_B := position_B (bullets' ! i),
                                                active_B := active_B (bullets' ! i)\<rparr>)
             \<and> (\<not> active_B (bullets ! i) \<longrightarrow> bullets' ! i = bullets ! i)"
  proof (intro allI impI conjI)
    fix i assume i: "i < length bullets"
    show "bullets' ! i = bullets ! i" if "\<not> active_B (bullets ! i)"
      using that adv [OF i] by (simp add: advance_bullet_inactive)
    assume a: "active_B (bullets ! i)"
    show "position_B (bullets' ! i) =
                    \<lparr>vec_x = vec_x (position_B (bullets ! i))
                              + vec_x (direction_B (bullets ! i)) * speed_B (bullets ! i),
                     vec_y = vec_y (position_B (bullets ! i))
                              + vec_y (direction_B (bullets ! i)) * speed_B (bullets ! i),
                     vec_z = vec_z (position_B (bullets ! i))
                              + vec_z (direction_B (bullets ! i)) * speed_B (bullets ! i)\<rparr>"
      unfolding adv [OF i] using a by (rule advance_bullet_active(1))
    show "active_B (bullets' ! i) \<longleftrightarrow> \<not> 50 < Vector3Length (position_B (bullets' ! i))"
      unfolding adv [OF i] using a by (rule advance_bullet_active(2))
    show "bullets' ! i = (bullets ! i)\<lparr>position_B := position_B (bullets' ! i),
                                       active_B := active_B (bullets' ! i)\<rparr>"
      unfolding adv [OF i] using a by (rule advance_bullet_active(3))
  qed
  ultimately show ?thesis using r l by (intro exI [of _ bullets'] conjI)
qed

lemma list_of_three: "length xs = 3 \<Longrightarrow> xs = [xs ! 0, xs ! 1, xs ! 2]"
  by (auto simp: numeral_3_eq_3 length_Suc_conv)

lemma sqrt_square_503: "sqrt (503 / 10 * (503 / 10)) = 503 / 10"
  by (rule real_sqrt_unique) (simp_all add: power2_eq_square)

lemma sqrt_square_3: "sqrt (3 / 10 * (3 / 10)) = 3 / 10"
  by (rule real_sqrt_unique) (simp_all add: power2_eq_square)

theorem C7_advance_bullets_witness:
  "active_below_count
     [new_bullet \<lparr>vec_x = 0, vec_y = 0, vec_z = 0\<rparr> \<lparr>vec_x = 1, vec_y = 0, vec_z = 0\<rparr> True,
      new_bullet \<lparr>vec_x = 50, vec_y = 0, vec_z = 0\<rparr> \<lparr>vec_x = 1, vec_y = 0, vec_z = 0\<rparr> False,
      zero_bullet] 2
   \<and> UpdateBullets
     [new_bullet \<lparr>vec_x = 0, vec_y = 0, vec_z = 0\<rparr> \<lparr>vec_x = 1, vec_y = 0, vec_z = 0\<rparr> True,
      new_bullet \<lparr>vec_x = 50, vec_y = 0, vec_z = 0\<rparr> \<lparr>vec_x = 1, vec_y = 0, vec_z = 0\<rparr> False,
      zero_bullet] 2 (1 / 60)
     = Inr
     [new_bullet \<lparr>vec_x = 3 / 10, vec_y = 0, vec_z = 0\<rparr> \<lparr>vec_x = 1, vec_y = 0, vec_z = 0\<rparr> True,
      (new_bullet \<lparr>vec_x = 503 / 10, vec_y = 0, vec_z = 0\<rparr> \<lparr>vec_x = 1, vec_y = 0, vec_z = 0\<rparr> False)
         \<lparr>active_B := False\<rparr>,
      zero_bullet]"
proof -
  let ?b0 = "new_bullet \<lparr>vec_x = 0, vec_y = 0, vec_z = 0\<rparr> \<lparr>vec_x = 1, vec_y = 0, vec_z = 0\<rparr> True"
  let ?b1 = "new_bullet \<lparr>vec_x = 50, vec_y = 0, vec_z = 0\<rparr> \<lparr>vec_x = 1, vec_y = 0, vec_z = 0\<rparr> False"
  let ?L = "[?b0, ?b1, zero_bullet]"
  have inv: "active_below_count ?L 2"
    by (simp add: active_below_count_def zero_bullet_def less_Suc_eq numeral_3_eq_3)
  have bound: "(2::int) \<le> int (length ?L)" by simp
  from C7_advance_bullets [OF bound inv, of "1 / 60" "1 / 60"]
  obtain bs where r: "UpdateBullets ?L 2 (1 / 60) = Inr bs" and l: "length bs = length ?L"
    and n: "\<forall>i<length ?L.
               (active_B (?L ! i) \<longrightarrow>
                  position_B (bs ! i) =
                    \<lparr>vec_x = vec_x (position_B (?L ! i))
                              + vec_x (direction_B (?L ! i)) * speed_B (?L ! i),
                     vec_y = vec_y (position_B (?L ! i))
                              + vec_y (direction_B (?L ! i)) * speed_B (?L ! i),
                     vec_z = vec_z (position_B (?L ! i))
                              + vec_z (direction_B (?L ! i)) * speed_B (?L ! i)\<rparr>
                \<and> (active_B (bs ! i) \<longleftrightarrow> \<not> 50 < Vector3Length (position_B (bs ! i)))
                \<and> bs ! i = (?L ! i)\<lparr>position_B := position_B (bs ! i),
                                      active_B := active_B (bs ! i)\<rparr>)
             \<and> (\<not> active_B (?L ! i) \<longrightarrow> bs ! i = ?L ! i)"
    by (elim exE conjE)
  have p0: "position_B (bs ! 0) = \<lparr>vec_x = 3 / 10, vec_y = 0, vec_z = 0\<rparr>"
    using n [rule_format, of 0] by (simp add: new_bullet_def BULLET_SPEED_def)
  have a0: "active_B (bs ! 0)"
    using n [rule_format, of 0] p0 sqrt_square_3
    by (simp add: new_bullet_def Vector3Length_def)
  have b0: "bs ! 0 = new_bullet \<lparr>vec_x = 3 / 10, vec_y = 0, vec_z = 0\<rparr> \<lparr>vec_x = 1, vec_y = 0, vec_z = 0\<rparr> True"
  proof -
    have "0 < length ?L" "active_B (?L ! 0)" by (simp_all add: new_bullet_def)
    with n have "bs ! 0 = (?L ! 0)\<lparr>position_B := position_B (bs ! 0), active_B := active_B (bs ! 0)\<rparr>"
      by blast
    then have "bs ! 0 = ?b0\<lparr>position_B := position_B (bs ! 0), active_B := active_B (bs ! 0)\<rparr>"
      by (simp only: nth_Cons_0 nth_Cons_Suc One_nat_def)
    then show ?thesis by (rule ssubst) (simp add: p0 a0 new_bullet_def)
  qed
  have p1: "position_B (bs ! 1) = \<lparr>vec_x = 503 / 10, vec_y = 0, vec_z = 0\<rparr>"
    using n [rule_format, of 1] by (simp add: new_bullet_def BULLET_SPEED_def)
  have a1: "\<not> active_B (bs ! 1)"
    using n [rule_format, of 1] p1 sqrt_square_503
    by (simp add: new_bullet_def Vector3Length_def)
  have b1: "bs ! 1 = (new_bullet \<lparr>vec_x = 503 / 10, vec_y = 0, vec_z = 0\<rparr> \<lparr>vec_x = 1, vec_y = 0, vec_z = 0\<rparr> False)
         \<lparr>active_B := False\<rparr>"
  proof -
    have "1 < length ?L" "active_B (?L ! 1)" by (simp_all add: new_bullet_def)
    with n have "bs ! 1 = (?L ! 1)\<lparr>position_B := position_B (bs ! 1), active_B := active_B (bs ! 1)\<rparr>"
      by blast
    then have "bs ! 1 = ?b1\<lparr>position_B := position_B (bs ! 1), active_B := active_B (bs ! 1)\<rparr>"
      by (simp only: nth_Cons_0 nth_Cons_Suc One_nat_def)
    then show ?thesis by (rule ssubst) (use p1 a1 in \<open>simp add: new_bullet_def\<close>)
  qed
  have b2: "bs ! 2 = zero_bullet"
    using n [rule_format, of 2] by (simp add: zero_bullet_def)
  from l have "bs = [bs ! 0, bs ! 1, bs ! 2]" by (intro list_of_three) simp
  with b0 b1 b2 have "bs = [new_bullet \<lparr>vec_x = 3 / 10, vec_y = 0, vec_z = 0\<rparr> \<lparr>vec_x = 1, vec_y = 0, vec_z = 0\<rparr> True,
      (new_bullet \<lparr>vec_x = 503 / 10, vec_y = 0, vec_z = 0\<rparr> \<lparr>vec_x = 1, vec_y = 0, vec_z = 0\<rparr> False)
         \<lparr>active_B := False\<rparr>,
      zero_bullet]" by simp
  with r inv show ?thesis by simp
qed


subsection \<open>The shot counter at capacity\<close>

lemma UpdateBullets_first_slot:
  assumes "1 \<le> bulletCount" "bulletCount \<le> int (length bullets)"
    and "\<forall>j<length bullets. 0 < j \<longrightarrow> \<not> active_B (bullets ! j)"
  shows "UpdateBullets bullets bulletCount dt = Inr (bullets[0 := advance_bullet (bullets ! 0)])"
proof -
  from UpdateBullets_from_nth [OF assms(2), of 0 dt]
  obtain bullets' where r: "UpdateBullets_from 0 bullets bulletCount dt = Inr bullets'"
    and l: "length bullets' = length bullets"
    and n: "\<forall>j<length bullets. bullets' ! j =
            (if 0 \<le> j \<and> int j < bulletCount then advance_bullet (bullets ! j) else bullets ! j)"
    by (elim exE conjE)
  have "bullets' = bullets[0 := advance_bullet (bullets ! 0)]"
  proof (rule nth_equalityI)
    show "length bullets' = length (bullets[0 := advance_bullet (bullets ! 0)])" using l by simp
  next
    fix j assume "j < length bullets'"
    then have j: "j < length bullets" using l by simp
    show "bullets' ! j = bullets[0 := advance_bullet (bullets ! 0)] ! j"
    proof (cases "j = 0")
      case True
      with n j assms(1) show ?thesis by simp
    next
      case False
      with assms(3) j have "\<not> active_B (bullets ! j)" by simp
      then have "advance_bullet (bullets ! j) = bullets ! j" by (rule advance_bullet_inactive)
      with n j False show ?thesis by simp
    qed
  qed
  with r show ?thesis by (simp add: UpdateBullets_def)
qed

lemma initial_pool_first_slot:
  assumes "1 \<le> bulletCount" "bulletCount \<le> MAX_BULLETS"
  shows "UpdateBullets (initial_bullets[0 := b]) bulletCount dt
       = Inr (initial_bullets[0 := advance_bullet b])"
proof -
  have "UpdateBullets (initial_bullets[0 := b]) bulletCount dt
      = Inr ((initial_bullets[0 := b])[0 := advance_bullet ((initial_bullets[0 := b]) ! 0)])"
    using assms
    by (intro UpdateBullets_first_slot)
       (simp_all add: initial_bullets_def MAX_BULLETS_def zero_bullet_def)
  then show ?thesis by (simp add: initial_bullets_def MAX_BULLETS_def)
qed

lemma initial_pool_frames:
  assumes "1 \<le> bulletCount" "bulletCount \<le> MAX_BULLETS"
  shows "UpdateBullets_frames n (initial_bullets[0 := b]) bulletCount dt
       = Inr (initial_bullets[0 := (advance_bullet ^^ n) b])"
proof (induction n arbitrary: b)
  case 0
  show ?case by simp
next
  case (Suc n)
  show ?case
    by (simp add: initial_pool_first_slot [OF assms] Suc funpow_Suc_right del: funpow.simps)
qed


lemma sqrt_le_50: "sqrt x \<le> 50 \<longleftrightarrow> x \<le> 2500"
proof -
  have "sqrt 2500 = 50" by (rule real_sqrt_unique) simp_all
  with real_sqrt_le_iff [of x 2500] show ?thesis by simp
qed

lemma flight_in_range:
  assumes "k \<le> 166"
  shows "(advance_bullet ^^ k)
           (new_bullet \<lparr>vec_x = 0, vec_y = 1, vec_z = -2\<rparr> \<lparr>vec_x = 1, vec_y = 0, vec_z = 0\<rparr> True)
       = (new_bullet \<lparr>vec_x = 0, vec_y = 1, vec_z = -2\<rparr> \<lparr>vec_x = 1, vec_y = 0, vec_z = 0\<rparr> True)
           \<lparr>position_B := \<lparr>vec_x = 3 * real k / 10, vec_y = 1, vec_z = -2\<rparr>\<rparr>"
  using assms
proof (induction k)
  case 0
  show ?case by (simp add: new_bullet_def)
next
  case (Suc k)
  then have k: "real k + 1 \<le> 166" by simp
  have "0 \<le> real k + 1" by simp
  with k have "(real k + 1) * (real k + 1) \<le> 166 * 166" by (intro mult_mono) simp_all
  then have near: "(3 * (real k + 1) / 10) * (3 * (real k + 1) / 10) + 5 \<le> 2500"
    by (simp add: field_simps)
  have len: "\<not> 50 < Vector3Length \<lparr>vec_x = 3 * (real k + 1) / 10, vec_y = 1, vec_z = -2\<rparr>"
    using near by (simp add: Vector3Length_def not_less sqrt_le_50 algebra_simps)
  have pos: "3 * real k / 10 + 3 / 10 = 3 * (real k + 1) / 10" by (simp add: field_simps)
  from Suc show ?case
    using len by (simp add: advance_bullet_def new_bullet_def BULLET_SPEED_def Let_def pos
                       add.commute [of 1 "real k"])
qed


lemma flight_spent:
  "(advance_bullet ^^ 167)
      (new_bullet \<lparr>vec_x = 0, vec_y = 1, vec_z = -2\<rparr> \<lparr>vec_x = 1, vec_y = 0, vec_z = 0\<rparr> True)
   = spent_bullet"
proof -
  let ?b = "new_bullet \<lparr>vec_x = 0, vec_y = 1, vec_z = -2\<rparr> \<lparr>vec_x = 1, vec_y = 0, vec_z = 0\<rparr> True"
  have n: "(167::nat) = Suc 166" by simp
  have far: "50 < Vector3Length \<lparr>vec_x = 501 / 10, vec_y = 1, vec_z = -2\<rparr>"
    using sqrt_le_50 [of "501 / 10 * (501 / 10) + 1 * 1 + (- 2) * (- 2)"]
    by (simp add: Vector3Length_def not_le [symmetric])
  have "(advance_bullet ^^ 167) ?b = advance_bullet ((advance_bullet ^^ 166) ?b)"
    by (simp only: n funpow.simps o_apply)
  also have "(advance_bullet ^^ 166) ?b = ?b\<lparr>position_B := \<lparr>vec_x = 3 * real 166 / 10, vec_y = 1, vec_z = -2\<rparr>\<rparr>"
    by (rule flight_in_range) simp
  also have "advance_bullet \<dots> = spent_bullet"
    using far by (simp add: advance_bullet_def new_bullet_def BULLET_SPEED_def Let_def spent_bullet_def)
  finally show ?thesis .
qed

lemma shot_along_x:
  "main_shoot_direction \<lparr>vec_x = 3, vec_y = 1, vec_z = -2\<rparr> initial_player
     = \<lparr>vec_x = 1, vec_y = 0, vec_z = 0\<rparr>"
proof -
  have nine: "sqrt 9 = 3" by (rule real_sqrt_unique) simp_all
  then show ?thesis
    by (simp add: main_shoot_direction_def Let_def Vector3Normalize_def Vector3Length_def
        Vector3Subtract_def Vector3Scale_def initial_player_def)
qed

lemma shot_and_flight_initial_pool:
  assumes "\<not> active_B b" "0 \<le> bulletCount" "bulletCount < MAX_BULLETS"
  shows "shot_and_flight (initial_bullets[0 := b], bulletCount) = Inr (spent_bullets, bulletCount + 1)"
proof -
  let ?nb = "new_bullet \<lparr>vec_x = 0, vec_y = 1, vec_z = -2\<rparr> \<lparr>vec_x = 1, vec_y = 0, vec_z = 0\<rparr> True"
  have "ShootBullet (initial_bullets[0 := b]) bulletCount \<lparr>vec_x = 0, vec_y = 1, vec_z = -2\<rparr>
          \<lparr>vec_x = 1, vec_y = 0, vec_z = 0\<rparr> True
      = Inr ((initial_bullets[0 := b])[0 := ?nb], bulletCount + 1)"
    using assms by (intro ShootBullet_free_slot) (simp_all add: initial_bullets_def MAX_BULLETS_def)
  then have shot: "main_player_shoot \<lparr>vec_x = 3, vec_y = 1, vec_z = -2\<rparr> initial_player
          (initial_bullets[0 := b]) bulletCount
      = Inr (initial_bullets[0 := ?nb], bulletCount + 1)"
    unfolding main_player_shoot_def shot_along_x by (simp add: initial_player_def)
  have "UpdateBullets_frames 167 (initial_bullets[0 := ?nb]) (bulletCount + 1) (1 / 60)
      = Inr (initial_bullets[0 := (advance_bullet ^^ 167) ?nb])"
    using assms by (intro initial_pool_frames) simp_all
  then show ?thesis
    by (simp add: shot_and_flight_def shot flight_spent spent_bullets_def)
qed

lemma shots_initial_pool:
  assumes "n < nat MAX_BULLETS"
  shows "shots (Suc n) (initial_bullets, 0) = Inr (spent_bullets, int n + 1)"
  using assms
proof (induction n)
  case 0
  have "initial_bullets ! 0 = zero_bullet"
    by (simp add: initial_bullets_def MAX_BULLETS_def)
  with list_update_id [of initial_bullets 0]
  have "initial_bullets = initial_bullets[0 := zero_bullet]" by simp
  moreover have "shot_and_flight (initial_bullets[0 := zero_bullet], 0) = Inr (spent_bullets, 0 + 1)"
    by (intro shot_and_flight_initial_pool) (simp_all add: zero_bullet_def MAX_BULLETS_def)
  ultimately show ?case by simp
next
  case (Suc n)
  then have prev: "shots (Suc n) (initial_bullets, 0) = Inr (spent_bullets, int n + 1)" by simp
  have "shot_and_flight (initial_bullets[0 := spent_bullet], int n + 1)
      = Inr (spent_bullets, int n + 1 + 1)"
    using Suc.prems by (intro shot_and_flight_initial_pool) (simp_all add: spent_bullet_def)
  then show ?case
    using prev by (simp add: spent_bullets_def del: shots.simps) (simp add: prev spent_bullets_def)
qed


lemma spent_bullets_length: "int (length spent_bullets) = MAX_BULLETS"
  by (simp add: spent_bullets_def initial_bullets_def MAX_BULLETS_def)

lemma spent_bullets_inactive: "filter active_B spent_bullets = []"
proof -
  have "\<not> active_B b" if "b \<in> set spent_bullets" for b
  proof -
    from that have "b \<in> insert spent_bullet (set initial_bullets)"
      using set_update_subset_insert [of initial_bullets 0 spent_bullet]
      by (auto simp: spent_bullets_def)
    then show ?thesis
      by (auto simp: spent_bullet_def initial_bullets_def zero_bullet_def)
  qed
  then show ?thesis by (simp add: filter_empty_conv)
qed

text \<open>
  C2. The count that the guard of \<open>ShootBullet\<close> reads is \<open>bulletCount\<close>:
  every shot that takes a free slot increments it and nothing decrements it, while
  bullets do leave the pool. After 500 shots from the initial state, each followed by
  the flight of its bullet, all 500 slots are inactive and \<open>bulletCount\<close> is 500.
  There \<open>ShootBullet\<close> writes nothing, whatever origin, direction and owner it is
  given, although no bullet is active and every slot is free: the player's click fires
  no bullet. With the same pool and the count at 499 the same click activates slot 0.
\<close>

theorem C2_fire_dead_at_capacity:
  "shots 500 (initial_bullets, 0) = Inr (spent_bullets, 500)
   \<and> length spent_bullets = 500
   \<and> filter active_B spent_bullets = []
   \<and> ShootBullet spent_bullets 500 pos dir fp = Inr (spent_bullets, 500)
   \<and> main_player_shoot \<lparr>vec_x = 3, vec_y = 1, vec_z = -2\<rparr> initial_player spent_bullets 500
        = Inr (spent_bullets, 500)
   \<and> main_player_shoot \<lparr>vec_x = 3, vec_y = 1, vec_z = -2\<rparr> initial_player spent_bullets 499
        = Inr (spent_bullets[0 := new_bullet \<lparr>vec_x = 0, vec_y = 1, vec_z = -2\<rparr>
                                   \<lparr>vec_x = 1, vec_y = 0, vec_z = 0\<rparr> True], 500)
   \<and> active_B (spent_bullets[0 := new_bullet \<lparr>vec_x = 0, vec_y = 1, vec_z = -2\<rparr>
                                   \<lparr>vec_x = 1, vec_y = 0, vec_z = 0\<rparr> True] ! 0)"
proof (intro conjI)
  have "(500::nat) = Suc 499" by simp
  moreover have "shots (Suc 499) (initial_bullets, 0) = Inr (spent_bullets, int 499 + 1)"
    by (rule shots_initial_pool) (simp add: MAX_BULLETS_def)
  ultimately show "shots 500 (initial_bullets, 0) = Inr (spent_bullets, 500)"
    by (simp del: shots.simps)
  show "length spent_bullets = 500"
    using spent_bullets_length by (simp add: MAX_BULLETS_def)
  show "filter active_B spent_bullets = []" by (rule spent_bullets_inactive)
  show full: "ShootBullet spent_bullets 500 pos dir fp = Inr (spent_bullets, 500)" for pos dir fp
    by (rule ShootBullet_full) (simp add: MAX_BULLETS_def)
  show "main_player_shoot \<lparr>vec_x = 3, vec_y = 1, vec_z = -2\<rparr> initial_player spent_bullets 500
        = Inr (spent_bullets, 500)"
    unfolding main_player_shoot_def by (rule full)
  have "ShootBullet spent_bullets 499 \<lparr>vec_x = 0, vec_y = 1, vec_z = -2\<rparr>
          \<lparr>vec_x = 1, vec_y = 0, vec_z = 0\<rparr> True
      = Inr (spent_bullets[0 := new_bullet \<lparr>vec_x = 0, vec_y = 1, vec_z = -2\<rparr>
                                   \<lparr>vec_x = 1, vec_y = 0, vec_z = 0\<rparr> True], 499 + 1)"
    by (intro ShootBullet_free_slot)
       (simp_all add: spent_bullets_def spent_bullet_def initial_bullets_def MAX_BULLETS_def)
  then show "main_player_shoot \<lparr>vec_x = 3, vec_y = 1, vec_z = -2\<rparr> initial_player spent_bullets 499
        = Inr (spent_bullets[0 := new_bullet \<lparr>vec_x = 0, vec_y = 1, vec_z = -2\<rparr>
                                   \<lparr>vec_x = 1, vec_y = 0, vec_z = 0\<rparr> True], 500)"
    unfolding main_player_shoot_def shot_along_x by (simp add: initial_player_def)
  show "active_B (spent_bullets[0 := new_bullet \<lparr>vec_x = 0, vec_y = 1, vec_z = -2\<rparr>
                                   \<lparr>vec_x = 1, vec_y = 0, vec_z = 0\<rparr> True] ! 0)"
    by (simp add: spent_bullets_def initial_bullets_def MAX_BULLETS_def new_bullet_def)
qed


subsection \<open>Bullets against map, player and enemies\<close>























subsection \<open>Enemy behaviour\<close>























end
